theory Spec2Isabelle
  imports Complex_Main "HOL-Library.Log_Nat"
begin

section \<open>The DCRL-ME example notebook (examples/dcrlme.ipynb)\<close>

text \<open>
  The notebook is glue code: it configures an environment, a policy network, an emitter and
  a MAP-Elites driver of the QDax library and runs a training loop.  The embedding follows
  the notebook cell by cell.  What the notebook only calls (the environment factory, the
  network's forward pass, the MAP-Elites update, the clock) is a parameter of the
  definition that calls it; library classes whose behaviour a property depends on are
  modelled from the specification and marked as such.
\<close>

subsection \<open>Array values\<close>

text \<open>
  A floating-point entry of an array is a number or NaN.  The rounding of array arithmetic
  and the infinities are not modelled: a number is a real.  Arithmetic on entries
  propagates NaN as IEEE 754 does.
\<close>

datatype jfloat = Num real | NaN

fun fmul :: "jfloat \<Rightarrow> jfloat \<Rightarrow> jfloat" where
  "fmul (Num a) (Num b) = Num (a * b)"
| "fmul _ _ = NaN"

fun fadd :: "jfloat \<Rightarrow> jfloat \<Rightarrow> jfloat" where
  "fadd (Num a) (Num b) = Num (a + b)"
| "fadd _ _ = NaN"

fun fmaximum :: "jfloat \<Rightarrow> jfloat \<Rightarrow> jfloat" where
  "fmaximum (Num a) (Num b) = Num (max a b)"
| "fmaximum _ _ = NaN"

fun fminimum :: "jfloat \<Rightarrow> jfloat \<Rightarrow> jfloat" where
  "fminimum (Num a) (Num b) = Num (min a b)"
| "fminimum _ _ = NaN"

text \<open>An array is a scalar (shape \<open>()\<close>) or a vector (shape \<open>(n,)\<close>).\<close>

datatype jarray = Scalar jfloat | Vector "jfloat list"

fun shape :: "jarray \<Rightarrow> nat list" where
  "shape (Scalar x) = []"
| "shape (Vector xs) = [length xs]"

fun entries :: "jarray \<Rightarrow> jfloat list" where
  "entries (Scalar x) = [x]"
| "entries (Vector xs) = xs"

fun map_entries :: "(jfloat \<Rightarrow> jfloat) \<Rightarrow> jarray \<Rightarrow> jarray" where
  "map_entries f (Scalar x) = Scalar (f x)"
| "map_entries f (Vector xs) = Vector (map f xs)"

text \<open>\<^verbatim>\<open>jnp.zeros(n)\<close>, \<^verbatim>\<open>jnp.nan\<close>, and an array times or plus a Python float.\<close>

definition jnp_zeros :: "nat \<Rightarrow> jarray" where
  "jnp_zeros n = Vector (replicate n (Num 0))"

definition jnp_nan :: jfloat where
  "jnp_nan = NaN"

definition times_scalar :: "jarray \<Rightarrow> jfloat \<Rightarrow> jarray" where
  "times_scalar a c = map_entries (\<lambda>x. fmul x c) a"

definition plus_scalar :: "jarray \<Rightarrow> jfloat \<Rightarrow> jarray" where
  "plus_scalar a c = map_entries (\<lambda>x. fadd x c) a"

text \<open>\<^verbatim>\<open>jnp.clip(a, a_min=lo, a_max=hi)\<close>, a bound that is \<^verbatim>\<open>None\<close> being skipped.\<close>

definition jnp_clip :: "jarray \<Rightarrow> real option \<Rightarrow> real option \<Rightarrow> jarray" where
  "jnp_clip a lo hi =
     (let a1 = (case lo of None \<Rightarrow> a | Some l \<Rightarrow> map_entries (\<lambda>x. fmaximum x (Num l)) a)
      in (case hi of None \<Rightarrow> a1 | Some h \<Rightarrow> map_entries (\<lambda>x. fminimum x (Num h)) a1))"

subsection \<open>Errors\<close>

text \<open>The exceptions a cell of the notebook can raise by itself.\<close>

datatype error =
    KeyError string
  | ModuleNotFoundError string
  | IndexError
  | ZeroDivisionError
  | OverflowError

subsection \<open>Environment states and environments\<close>

text \<open>
  The simulator's state: the physics state (kept abstract), the observation, the reward,
  the done flag and the \<^verbatim>\<open>info\<close> dictionary.
\<close>

record 'q EnvState =
  pipeline_state :: 'q
  obs :: jarray
  reward :: jarray
  done_flag :: jarray
  info :: "string \<rightharpoonup> jarray"

text \<open>
  What \<^verbatim>\<open>environments.create\<close> returns is a parameter: an environment with its two
  functions and the three dimensions the notebook reads.
\<close>

record ('q, 'k) created_env =
  created_reset :: "'k \<Rightarrow> 'q EnvState"
  created_step :: "'q EnvState \<Rightarrow> jarray \<Rightarrow> 'q EnvState"
  created_observation_size :: nat
  created_action_size :: nat
  created_behavior_descriptor_length :: nat

text \<open>
  An environment is the factory's output under a stack of reward wrappers.
\<close>

datatype ('q, 'k) env =
    Created "('q, 'k) created_env"
  | OffsetRewardWrapper "('q, 'k) env" real
  | ClipRewardWrapper "('q, 'k) env" "real option" "real option"

text \<open>A wrapper forwards the attributes it does not define to the environment it wraps.\<close>

fun unwrapped :: "('q, 'k) env \<Rightarrow> ('q, 'k) created_env" where
  "unwrapped (Created b) = b"
| "unwrapped (OffsetRewardWrapper e offset) = unwrapped e"
| "unwrapped (ClipRewardWrapper e clip_min clip_max) = unwrapped e"

definition observation_size :: "('q, 'k) env \<Rightarrow> nat" where
  "observation_size e = created_observation_size (unwrapped e)"

definition action_size :: "('q, 'k) env \<Rightarrow> nat" where
  "action_size e = created_action_size (unwrapped e)"

definition behavior_descriptor_length :: "('q, 'k) env \<Rightarrow> nat" where
  "behavior_descriptor_length e = created_behavior_descriptor_length (unwrapped e)"

text \<open>
  Modelled from the spec: the classes \<^verbatim>\<open>OffsetRewardWrapper\<close> and
  \<^verbatim>\<open>ClipRewardWrapper\<close> of \<^verbatim>\<open>qdax.environments.wrappers\<close> are missing from the
  sources.  They are the specification's reward-shaping wrappers: the first adds its offset
  to the reward of the state the wrapped environment returns, the second clips that reward
  to its bounds; neither touches another field.
\<close>

fun step :: "('q, 'k) env \<Rightarrow> 'q EnvState \<Rightarrow> jarray \<Rightarrow> 'q EnvState" where
  "step (Created b) state action = created_step b state action"
| "step (OffsetRewardWrapper e offset) state action =
     (let state' = step e state action
      in state'\<lparr>reward := plus_scalar (reward state') (Num offset)\<rparr>)"
| "step (ClipRewardWrapper e clip_min clip_max) state action =
     (let state' = step e state action
      in state'\<lparr>reward := jnp_clip (reward state') clip_min clip_max\<rparr>)"

fun reset :: "('q, 'k) env \<Rightarrow> 'k \<Rightarrow> 'q EnvState" where
  "reset (Created b) rng = created_reset b rng"
| "reset (OffsetRewardWrapper e offset) rng =
     (let state = reset e rng
      in state\<lparr>reward := plus_scalar (reward state) (Num offset)\<rparr>)"
| "reset (ClipRewardWrapper e clip_min clip_max) rng =
     (let state = reset e rng
      in state\<lparr>reward := jnp_clip (reward state) clip_min clip_max\<rparr>)"

text \<open>The wrappers around the factory's output, outermost first.\<close>

fun wrappers :: "('q, 'k) env \<Rightarrow> string list" where
  "wrappers (Created b) = []"
| "wrappers (OffsetRewardWrapper e offset) = ''OffsetRewardWrapper'' # wrappers e"
| "wrappers (ClipRewardWrapper e clip_min clip_max) = ''ClipRewardWrapper'' # wrappers e"

subsection \<open>Cell: init environment, policy\<close>

text \<open>
  \<^verbatim>\<open>
  env = environments.create(env_name, episode_length=episode_length)
  env = OffsetRewardWrapper(env, offset=environments.reward_offset[env_name])
  env = ClipRewardWrapper(env, clip_min=0.,)
  \<close>
  The factory \<open>create\<close> and the table \<open>reward_offset\<close> are parameters.  The subscript
  raises \<^verbatim>\<open>KeyError\<close> on a name the table lacks.
\<close>

definition init_environment ::
  "(string \<Rightarrow> int \<Rightarrow> ('q, 'k) created_env) \<Rightarrow> (string \<rightharpoonup> real) \<Rightarrow> string \<Rightarrow> int
     \<Rightarrow> error + ('q, 'k) env" where
  "init_environment create reward_offset env_name episode_length =
     (let env = Created (create env_name episode_length)
      in case reward_offset env_name of
           None \<Rightarrow> Inl (KeyError env_name)
         | Some offset \<Rightarrow>
             (let env = OffsetRewardWrapper env offset;
                  env = ClipRewardWrapper env (Some 0) None
              in Inr env))"

text \<open>
  A network module: its layer sizes and its forward function \<^verbatim>\<open>apply\<close>.  The forward
  pass of an MLP is a parameter \<open>forward\<close>, indexed by the layer sizes.
\<close>

record 'p network =
  layer_sizes :: "nat list"
  net_apply :: "'p \<Rightarrow> jarray \<Rightarrow> jarray"

definition MLP :: "(nat list \<Rightarrow> 'p \<Rightarrow> jarray \<Rightarrow> jarray) \<Rightarrow> nat list \<Rightarrow> 'p network" where
  "MLP forward sizes = \<lparr>layer_sizes = sizes, net_apply = forward sizes\<rparr>"

text \<open>
  \<^verbatim>\<open>
  policy_layer_sizes = policy_hidden_layer_sizes + (env.action_size,)
  policy_network = MLP(layer_sizes=policy_layer_sizes, ...)
  \<close>
\<close>

definition policy_layer_sizes :: "nat list \<Rightarrow> ('q, 'k) env \<Rightarrow> nat list" where
  "policy_layer_sizes policy_hidden_layer_sizes env = policy_hidden_layer_sizes @ [action_size env]"

definition policy_network ::
  "(nat list \<Rightarrow> 'p \<Rightarrow> jarray \<Rightarrow> jarray) \<Rightarrow> nat list \<Rightarrow> ('q, 'k) env \<Rightarrow> 'p network" where
  "policy_network forward policy_hidden_layer_sizes env =
     MLP forward (policy_layer_sizes policy_hidden_layer_sizes env)"

subsection \<open>Cell: the way the policy interacts with the environment\<close>

record DCRLTransition =
  obs :: jarray
  next_obs :: jarray
  rewards :: jarray
  dones :: jarray
  truncations :: jarray
  actions :: jarray
  state_desc :: jarray
  next_state_desc :: jarray
  desc :: jarray
  desc_prime :: jarray

text \<open>
  \<^verbatim>\<open>
  def play_step_fn(env_state, policy_params, random_key):
      actions = policy_network.apply(policy_params, env_state.obs)
      state_desc = env_state.info["state_descriptor"]
      next_state = env.step(env_state, actions)
      transition = DCRLTransition(
          obs=env_state.obs, next_obs=next_state.obs, rewards=next_state.reward,
          dones=next_state.done, truncations=next_state.info["truncation"],
          actions=actions, state_desc=state_desc,
          next_state_desc=next_state.info["state_descriptor"],
          desc=jnp.zeros(env.behavior_descriptor_length,) * jnp.nan,
          desc_prime=jnp.zeros(env.behavior_descriptor_length,) * jnp.nan,
      )
      return next_state, policy_params, random_key, transition
  \<close>
  The globals \<^verbatim>\<open>env\<close> and \<^verbatim>\<open>policy_network\<close> are the first two arguments.  A
  subscript of \<^verbatim>\<open>info\<close> raises \<^verbatim>\<open>KeyError\<close> on a missing key, in the order in
  which the source evaluates the subscripts.
\<close>

definition play_step_fn ::
  "('q, 'k) env \<Rightarrow> 'p network \<Rightarrow> 'q EnvState \<Rightarrow> 'p \<Rightarrow> 'r
     \<Rightarrow> error + ('q EnvState \<times> 'p \<times> 'r \<times> DCRLTransition)" where
  "play_step_fn env policy_net env_state policy_params random_key =
     (let acts = net_apply policy_net policy_params (EnvState.obs env_state)
      in case info env_state ''state_descriptor'' of
           None \<Rightarrow> Inl (KeyError ''state_descriptor'')
         | Some sd \<Rightarrow>
             (let next_state = step env env_state acts
              in case info next_state ''truncation'' of
                   None \<Rightarrow> Inl (KeyError ''truncation'')
                 | Some tr \<Rightarrow>
                     (case info next_state ''state_descriptor'' of
                        None \<Rightarrow> Inl (KeyError ''state_descriptor'')
                      | Some nsd \<Rightarrow>
                          Inr (next_state, policy_params, random_key,
                               \<lparr>obs = EnvState.obs env_state,
                                next_obs = EnvState.obs next_state,
                                rewards = reward next_state,
                                dones = done_flag next_state,
                                truncations = tr,
                                actions = acts,
                                state_desc = sd,
                                next_state_desc = nsd,
                                desc = times_scalar
                                  (jnp_zeros (behavior_descriptor_length env)) jnp_nan,
                                desc_prime = times_scalar
                                  (jnp_zeros (behavior_descriptor_length env)) jnp_nan\<rparr>))))"

subsection \<open>Cell: installing QDax when it is missing\<close>

text \<open>
  What the first cell can observe of the interpreter: the packages that can be imported,
  the modules already bound in the notebook, the shell commands run so far and the lines
  displayed under the cell.
\<close>

record session =
  installed :: "string set"
  modules :: "string set"
  shell_commands :: "string list"
  displayed :: "string list"

definition import_module :: "string \<Rightarrow> session \<Rightarrow> error + session" where
  "import_module name s =
     (if name \<in> installed s then Inr (s\<lparr>modules := insert name (modules s)\<rparr>)
      else Inl (ModuleNotFoundError name))"

definition print_line :: "string \<Rightarrow> session \<Rightarrow> session" where
  "print_line line s = s\<lparr>displayed := displayed s @ [line]\<rparr>"

text \<open>
  A shell escape runs its command and never raises.  What the command does to the set of
  importable packages is the parameter \<open>pip\<close>.
\<close>

definition run_shell :: "(string \<Rightarrow> string set \<Rightarrow> string set) \<Rightarrow> string \<Rightarrow> session \<Rightarrow> session" where
  "run_shell pip command s =
     s\<lparr>shell_commands := shell_commands s @ [command], installed := pip command (installed s)\<rparr>"

definition clear_output :: "session \<Rightarrow> session" where
  "clear_output s = s\<lparr>displayed := []\<rparr>"

text \<open>
  \<^verbatim>\<open>
  try:
      import qdax
  except:
      print("QDax not found. Installing...")
      !pip install qdax[cuda12]
      import qdax
  clear_output()
  \<close>
  The result is the session reached and the exception that left the cell, if any.
\<close>

definition import_or_install ::
  "(string \<Rightarrow> string set \<Rightarrow> string set) \<Rightarrow> session \<Rightarrow> session \<times> error option" where
  "import_or_install pip s =
     (case import_module ''qdax'' s of
        Inr s1 \<Rightarrow> (s1, None)
      | Inl e \<Rightarrow>
          (let s1 = print_line ''QDax not found. Installing...'' s;
               s2 = run_shell pip ''pip install qdax[cuda12]'' s1
           in case import_module ''qdax'' s2 of
                Inr s3 \<Rightarrow> (s3, None)
              | Inl e2 \<Rightarrow> (s2, Some e2)))"

definition bootstrap_cell ::
  "(string \<Rightarrow> string set \<Rightarrow> string set) \<Rightarrow> session \<Rightarrow> session \<times> error option" where
  "bootstrap_cell pip s =
     (case import_or_install pip s of
        (s1, None) \<Rightarrow> (clear_output s1, None)
      | (s1, Some e) \<Rightarrow> (s1, Some e))"

subsection \<open>Cells: the jitted update and the main loop\<close>

text \<open>
  Modelled from the spec: \<^verbatim>\<open>default_qd_metrics\<close> of \<^verbatim>\<open>qdax.utils.metrics\<close> is
  missing from the sources.  The metrics of one update are the three the specification
  names among the CSV file's columns.
\<close>

record qd_metrics =
  qd_score :: jfloat
  max_fitness :: jfloat
  coverage :: jfloat

text \<open>
  \<^verbatim>\<open>
  @jax.jit
  def update_scan_fn(carry, unused):
      repertoire, emitter_state, metrics, random_key = map_elites.update(*carry)
      return (repertoire, emitter_state, random_key), metrics
  \<close>
  \<^verbatim>\<open>map_elites.update\<close> is the parameter \<open>update\<close>.
\<close>

definition update_scan_fn ::
  "('r \<Rightarrow> 'e \<Rightarrow> 'k \<Rightarrow> 'r \<times> 'e \<times> qd_metrics \<times> 'k) \<Rightarrow> 'r \<times> 'e \<times> 'k \<Rightarrow> unit
     \<Rightarrow> ('r \<times> 'e \<times> 'k) \<times> qd_metrics" where
  "update_scan_fn update carry unused =
     (case carry of (r, e, k) \<Rightarrow>
        (case update r e k of (r', e', metrics, k') \<Rightarrow> ((r', e', k'), metrics)))"

text \<open>
  \<^verbatim>\<open>jax.lax.scan(f, init, (), length=n)\<close>: \<open>f\<close> is applied \<open>n\<close> times to the carry, and
  the second components of its results are stacked in order.
\<close>

fun lax_scan :: "('c \<Rightarrow> unit \<Rightarrow> 'c \<times> 'y) \<Rightarrow> 'c \<Rightarrow> nat \<Rightarrow> 'c \<times> 'y list" where
  "lax_scan f init 0 = (init, [])"
| "lax_scan f init (Suc n) =
     (case f init () of (carry, y) \<Rightarrow>
        (case lax_scan f carry n of (final, ys) \<Rightarrow> (final, y # ys)))"

text \<open>
  The stacked metrics are a dictionary of one-dimensional arrays, one entry per scanned
  step; \<^verbatim>\<open>metrics.items()\<close> lists it.
\<close>

definition stacked_items :: "qd_metrics list \<Rightarrow> (string \<times> jfloat list) list" where
  "stacked_items ms =
     [(''coverage'', map coverage ms),
      (''max_fitness'', map max_fitness ms),
      (''qd_score'', map qd_score ms)]"

text \<open>The values of a logged row: Python integers, Python floats and array scalars.\<close>

datatype pyvalue = PyInt int | PyFloat real | PyScalar jfloat

text \<open>
  Modelled from the spec: the class \<^verbatim>\<open>CSVLogger\<close> of \<^verbatim>\<open>qdax.utils.metrics\<close> is
  missing from the sources.  It is the specification's CSV file written incrementally: the
  constructor fixes the header, and every call of \<^verbatim>\<open>log\<close> appends one row.
\<close>

record csv_logger =
  filename :: string
  header :: "string list"
  rows :: "(string \<rightharpoonup> pyvalue) list"

definition CSVLogger :: "string \<Rightarrow> string list \<Rightarrow> csv_logger" where
  "CSVLogger name hdr = \<lparr>filename = name, header = hdr, rows = []\<rparr>"

definition log_row :: "csv_logger \<Rightarrow> (string \<rightharpoonup> pyvalue) \<Rightarrow> csv_logger" where
  "log_row logger metrics = logger\<lparr>rows := rows logger @ [metrics]\<rparr>"

text \<open>
  Python's \<^verbatim>\<open>a / b\<close> on two integers is the quotient rounded to the nearest binary64
  number, ties to the even significand.  \<open>pow2 k\<close> is \<open>2\<close> to the power \<open>k\<close>,
  \<open>binary_exponent a b\<close> the exponent of the binade of \<open>a / b\<close> (for positive \<open>a\<close> and
  \<open>b\<close>), and \<open>nearest_binary64 a b\<close> the quotient rounded to 53 significant bits, or to
  a multiple of the least subnormal number below the normal range.  The division raises
  \<^verbatim>\<open>ZeroDivisionError\<close> on the divisor zero and \<^verbatim>\<open>OverflowError\<close> when the rounded
  quotient is beyond the largest finite binary64 number.
\<close>

definition round_half_even :: "real \<Rightarrow> int" where
  "round_half_even x =
     (let f = \<lfloor>x\<rfloor>; r = x - of_int f
      in if r < 1 / 2 then f
         else if 1 / 2 < r then f + 1
         else if even f then f else f + 1)"

definition pow2 :: "int \<Rightarrow> real" where
  "pow2 k = (if 0 \<le> k then 2 ^ nat k else 1 / 2 ^ nat (- k))"

definition binary_exponent :: "int \<Rightarrow> int \<Rightarrow> int" where
  "binary_exponent a b =
     (let k = bitlen a - bitlen b
      in if of_int b * pow2 k \<le> of_int a then k else k - 1)"

definition nearest_binary64 :: "int \<Rightarrow> int \<Rightarrow> real" where
  "nearest_binary64 a b =
     (let e = max (binary_exponent a b) (- 1022);
          ulp = pow2 (e - 52)
      in of_int (round_half_even (of_int a / of_int b / ulp)) * ulp)"

definition py_truediv :: "int \<Rightarrow> int \<Rightarrow> error + real" where
  "py_truediv a b =
     (if b = 0 then Inl ZeroDivisionError
      else if a = 0 then Inr 0
      else
        (let q = nearest_binary64 \<bar>a\<bar> \<bar>b\<bar>
         in if 2 ^ 1024 \<le> q then Inl OverflowError
            else Inr (of_int (sgn a * sgn b) * q)))"

text \<open>\<^verbatim>\<open>int(x)\<close> on a float truncates towards zero.\<close>

definition py_int :: "real \<Rightarrow> int" where
  "py_int x = (if 0 \<le> x then \<lfloor>x\<rfloor> else \<lceil>x\<rceil>)"

text \<open>
  \<^verbatim>\<open>
  log_period = 10
  num_loops = int(num_iterations / log_period)
  \<close>
\<close>

definition log_period :: int where
  "log_period = 10"

definition num_loops :: "int \<Rightarrow> error + int" where
  "num_loops num_iterations =
     (case py_truediv num_iterations log_period of
        Inl err \<Rightarrow> Inl err
      | Inr q \<Rightarrow> Inr (py_int q))"

definition py_range :: "int \<Rightarrow> int list" where
  "py_range n = map int [0..<nat n]"

text \<open>
  The variables the main loop updates: the carry of the scan, the dictionary
  \<^verbatim>\<open>all_metrics\<close>, the logger, and the number of readings of the clock so far
  (the \<open>n\<close>-th reading of \<^verbatim>\<open>time.time()\<close> is the parameter \<open>time_at n\<close>).
\<close>

record ('r, 'e, 'k) training =
  repertoire :: 'r
  emitter_state :: 'e
  random_key :: 'k
  all_metrics :: "string \<rightharpoonup> jfloat list"
  csv :: csv_logger
  clock_reads :: nat

text \<open>
  \<^verbatim>\<open>
  for key, value in metrics.items():
      logged_metrics[key] = value[-1]
      if key in all_metrics.keys():
          all_metrics[key] = jnp.concatenate([all_metrics[key], value])
      else:
          all_metrics[key] = value
  \<close>
  The subscript \<^verbatim>\<open>value[-1]\<close> raises \<^verbatim>\<open>IndexError\<close> on an empty array.
\<close>

fun log_items ::
  "(string \<times> jfloat list) list \<Rightarrow> (string \<rightharpoonup> pyvalue) \<Rightarrow> (string \<rightharpoonup> jfloat list)
     \<Rightarrow> error + (string \<rightharpoonup> pyvalue) \<times> (string \<rightharpoonup> jfloat list)" where
  "log_items [] logged_metrics all = Inr (logged_metrics, all)"
| "log_items ((key, val) # items) logged_metrics all =
     (if val = [] then Inl IndexError
      else
        (let logged_metrics = logged_metrics(key \<mapsto> PyScalar (last val));
             all = (case all key of
                      Some old \<Rightarrow> all(key \<mapsto> old @ val)
                    | None \<Rightarrow> all(key \<mapsto> val))
         in log_items items logged_metrics all))"

text \<open>
  The body of the main loop, for the loop index \<open>i\<close>:
  \<^verbatim>\<open>
  start_time = time.time()
  (repertoire, emitter_state, random_key,), metrics = jax.lax.scan(
      update_scan_fn, (repertoire, emitter_state, random_key), (), length=log_period)
  timelapse = time.time() - start_time
  logged_metrics = {"time": timelapse, "loop": 1+i, "iteration": 1 + i*log_period}
  for key, value in metrics.items(): ...
  csv_logger.log(logged_metrics)
  \<close>
\<close>

definition loop_body ::
  "('r \<Rightarrow> 'e \<Rightarrow> 'k \<Rightarrow> 'r \<times> 'e \<times> qd_metrics \<times> 'k) \<Rightarrow> (nat \<Rightarrow> real) \<Rightarrow> int
     \<Rightarrow> ('r, 'e, 'k) training \<Rightarrow> error + ('r, 'e, 'k) training" where
  "loop_body update time_at i st =
     (let start_time = time_at (clock_reads st)
      in case lax_scan (update_scan_fn update)
                (repertoire st, emitter_state st, random_key st) (nat log_period) of
           ((r, e, k), metrics) \<Rightarrow>
             (let timelapse = time_at (Suc (clock_reads st)) - start_time;
                  logged_metrics =
                    [''time'' \<mapsto> PyFloat timelapse,
                     ''loop'' \<mapsto> PyInt (1 + i),
                     ''iteration'' \<mapsto> PyInt (1 + i * log_period)]
              in case log_items (stacked_items metrics) logged_metrics (all_metrics st) of
                   Inl err \<Rightarrow> Inl err
                 | Inr (logged_metrics, all) \<Rightarrow>
                     Inr \<lparr>repertoire = r, emitter_state = e, random_key = k,
                          all_metrics = all,
                          csv = log_row (csv st) logged_metrics,
                          clock_reads = Suc (Suc (clock_reads st))\<rparr>))"

text \<open>\<^verbatim>\<open>for i in indices: body\<close>, an exception of the body leaving the loop.\<close>

fun for_loop :: "(int \<Rightarrow> 's \<Rightarrow> error + 's) \<Rightarrow> int list \<Rightarrow> 's \<Rightarrow> error + 's" where
  "for_loop body [] st = Inr st"
| "for_loop body (i # indices) st =
     (case body i st of Inl err \<Rightarrow> Inl err | Inr st' \<Rightarrow> for_loop body indices st')"

text \<open>
  The cell of the main loop, from the carry \<^verbatim>\<open>map_elites.init\<close> returned:
  \<^verbatim>\<open>
  csv_logger = CSVLogger("dcrlme-logs.csv",
      header=["loop", "iteration", "qd_score", "max_fitness", "coverage", "time"])
  all_metrics = {}
  for i in range(num_loops): ...
  \<close>
  An exception of the division that computes \<^verbatim>\<open>num_loops\<close> leaves the cell before the
  logger is constructed.  The binding \<^verbatim>\<open>map_elites_scan_update = map_elites.scan_update\<close> before the loop is
  never used and has no counterpart here.
\<close>

definition main_loop ::
  "('r \<Rightarrow> 'e \<Rightarrow> 'k \<Rightarrow> 'r \<times> 'e \<times> qd_metrics \<times> 'k) \<Rightarrow> (nat \<Rightarrow> real) \<Rightarrow> int
     \<Rightarrow> 'r \<times> 'e \<times> 'k \<Rightarrow> error + ('r, 'e, 'k) training" where
  "main_loop update time_at num_iterations carry =
     (case num_loops num_iterations of
        Inl err \<Rightarrow> Inl err
      | Inr loops \<Rightarrow>
          (case carry of (r, e, k) \<Rightarrow>
             for_loop (loop_body update time_at) (py_range loops)
               \<lparr>repertoire = r, emitter_state = e, random_key = k,
                all_metrics = Map.empty,
                csv = CSVLogger ''dcrlme-logs.csv''
                        [''loop'', ''iteration'', ''qd_score'', ''max_fitness'', ''coverage'',
                         ''time''],
                clock_reads = 0\<rparr>))"

subsection \<open>Cells: the training definitions and the emitter configuration\<close>

text \<open>
  The form fields of the cell "QD Training Definitions Fields": the notebook's global
  settings, integers as \<open>int\<close>, numbers as \<open>real\<close>, tuples of layer widths as lists.
\<close>

record settings =
  seed :: int
  env_name :: string
  episode_length :: int
  min_bd :: real
  max_bd :: real
  num_iterations :: int
  batch_size :: int
  num_init_cvt_samples :: int
  num_centroids :: int
  policy_hidden_layer_sizes :: "nat list"
  ga_batch_size :: int
  dcrl_batch_size :: int
  ai_batch_size :: int
  lengthscale :: real
  iso_sigma :: real
  line_sigma :: real
  critic_hidden_layer_size :: "nat list"
  num_critic_training_steps :: int
  num_pg_training_steps :: int
  replay_buffer_size :: int
  discount :: real
  reward_scaling :: real
  critic_learning_rate :: real
  actor_learning_rate :: real
  policy_learning_rate :: real
  noise_clip :: real
  policy_noise :: real
  soft_tau_update :: real
  policy_delay :: int

text \<open>The values the notebook ships with.\<close>

definition notebook_settings :: settings where
  "notebook_settings =
     \<lparr>seed = 42, env_name = ''ant_omni'', episode_length = 250,
      min_bd = - 30, max_bd = 30,
      num_iterations = 1000, batch_size = 256,
      num_init_cvt_samples = 50000, num_centroids = 1024,
      policy_hidden_layer_sizes = [128, 128],
      ga_batch_size = 128, dcrl_batch_size = 64, ai_batch_size = 64,
      lengthscale = 1 / 10,
      iso_sigma = 5 / 1000, line_sigma = 5 / 100,
      critic_hidden_layer_size = [256, 256],
      num_critic_training_steps = 3000, num_pg_training_steps = 150,
      replay_buffer_size = 1000000,
      discount = 99 / 100, reward_scaling = 1,
      critic_learning_rate = 3 / 10000, actor_learning_rate = 3 / 10000,
      policy_learning_rate = 5 / 1000,
      noise_clip = 1 / 2, policy_noise = 2 / 10,
      soft_tau_update = 5 / 1000, policy_delay = 2\<rparr>"

text \<open>
  The fields the notebook gives \<^verbatim>\<open>DCRLMEConfig\<close>, the emitter's parameter bag (a class of
  the library, of which only the keyword arguments of this call are known).
\<close>

record DCRLMEConfig =
  ga_batch_size :: int
  dcrl_batch_size :: int
  ai_batch_size :: int
  lengthscale :: real
  critic_hidden_layer_size :: "nat list"
  num_critic_training_steps :: int
  num_pg_training_steps :: int
  batch_size :: int
  replay_buffer_size :: int
  discount :: real
  reward_scaling :: real
  critic_learning_rate :: real
  actor_learning_rate :: real
  policy_learning_rate :: real
  noise_clip :: real
  policy_noise :: real
  soft_tau_update :: real
  policy_delay :: int

text \<open>
  \<^verbatim>\<open>
  dcrl_emitter_config = DCRLMEConfig(
      ga_batch_size=ga_batch_size, dcrl_batch_size=dcrl_batch_size,
      ai_batch_size=ai_batch_size, lengthscale=lengthscale,
      critic_hidden_layer_size=critic_hidden_layer_size,
      num_critic_training_steps=num_critic_training_steps,
      num_pg_training_steps=num_pg_training_steps, batch_size=batch_size,
      replay_buffer_size=replay_buffer_size, discount=discount,
      reward_scaling=reward_scaling, critic_learning_rate=critic_learning_rate,
      actor_learning_rate=actor_learning_rate,
      policy_learning_rate=policy_learning_rate, noise_clip=noise_clip,
      policy_noise=policy_noise, soft_tau_update=soft_tau_update,
      policy_delay=policy_delay)
  \<close>
\<close>

definition dcrl_emitter_config :: "settings \<Rightarrow> DCRLMEConfig" where
  "dcrl_emitter_config g =
     \<lparr>ga_batch_size = settings.ga_batch_size g,
      dcrl_batch_size = settings.dcrl_batch_size g,
      ai_batch_size = settings.ai_batch_size g,
      lengthscale = settings.lengthscale g,
      critic_hidden_layer_size = settings.critic_hidden_layer_size g,
      num_critic_training_steps = settings.num_critic_training_steps g,
      num_pg_training_steps = settings.num_pg_training_steps g,
      batch_size = settings.batch_size g,
      replay_buffer_size = settings.replay_buffer_size g,
      discount = settings.discount g,
      reward_scaling = settings.reward_scaling g,
      critic_learning_rate = settings.critic_learning_rate g,
      actor_learning_rate = settings.actor_learning_rate g,
      policy_learning_rate = settings.policy_learning_rate g,
      noise_clip = settings.noise_clip g,
      policy_noise = settings.policy_noise g,
      soft_tau_update = settings.soft_tau_update g,
      policy_delay = settings.policy_delay g\<rparr>"

subsection \<open>Predicates of the properties\<close>

definition non_negative :: "jarray \<Rightarrow> bool" where
  "non_negative a = list_all (\<lambda>x. case x of Num r \<Rightarrow> 0 \<le> r | NaN \<Rightarrow> False) (entries a)"

definition has_nan :: "jarray \<Rightarrow> bool" where
  "has_nan a = (NaN \<in> set (entries a))"

definition all_nan :: "jarray \<Rightarrow> bool" where
  "all_nan a = list_all (\<lambda>x. x = NaN) (entries a)"

text \<open>
  Modelled from the spec: the environments of \<^verbatim>\<open>qdax.environments\<close> are missing from the
  sources.  A state fits an environment's declared dimensions when its observation has the
  declared observation size and its \<^verbatim>\<open>info\<close> holds a state descriptor of the declared
  descriptor length and a truncation flag; an environment keeps its declaration when a
  step from a fitting state with an action of the declared action size gives a fitting
  state.
\<close>

definition state_fits :: "('q, 'k) created_env \<Rightarrow> 'q EnvState \<Rightarrow> bool" where
  "state_fits b s =
     (shape (EnvState.obs s) = [created_observation_size b]
      \<and> (case info s ''state_descriptor'' of
           None \<Rightarrow> False
         | Some d \<Rightarrow> shape d = [created_behavior_descriptor_length b])
      \<and> info s ''truncation'' \<noteq> None)"

definition keeps_declaration :: "('q, 'k) created_env \<Rightarrow> bool" where
  "keeps_declaration b =
     (\<forall>s a. state_fits b s \<and> shape a = [created_action_size b]
        \<longrightarrow> state_fits b (created_step b s a))"

text \<open>
  Modelled from the spec: the class \<^verbatim>\<open>MLP\<close> of the library's networks is missing from
  the sources.  Its forward pass returns a vector as long as its last layer is wide.
\<close>

definition output_is_last_layer :: "(nat list \<Rightarrow> 'p \<Rightarrow> jarray \<Rightarrow> jarray) \<Rightarrow> bool" where
  "output_is_last_layer forward =
     (\<forall>sizes p x. sizes \<noteq> [] \<longrightarrow> shape (forward sizes p x) = [last sizes])"

text \<open>
  The carry of the scan held by a state of the main loop, and the values gathered so far
  under a key of \<^verbatim>\<open>all_metrics\<close>.
\<close>

definition carry_of :: "('r, 'e, 'k) training \<Rightarrow> 'r \<times> 'e \<times> 'k" where
  "carry_of st = (repertoire st, emitter_state st, random_key st)"

definition collected :: "('r, 'e, 'k) training \<Rightarrow> string \<Rightarrow> jfloat list" where
  "collected st key = (case all_metrics st key of None \<Rightarrow> [] | Some v \<Rightarrow> v)"

text \<open>
  One MAP-Elites update step in the words of the specification: the update is applied to
  the repertoire, the emitter state and the random key, which are replaced by the ones it
  returns; \<open>update_metrics\<close> are the metrics of that step, and \<open>metrics_of_steps\<close> the
  metrics of the first \<open>n\<close> successive steps from a carry.
\<close>

definition update_step ::
  "('r \<Rightarrow> 'e \<Rightarrow> 'k \<Rightarrow> 'r \<times> 'e \<times> qd_metrics \<times> 'k) \<Rightarrow> 'r \<times> 'e \<times> 'k \<Rightarrow> 'r \<times> 'e \<times> 'k" where
  "update_step update c =
     (case c of (r, e, k) \<Rightarrow> (case update r e k of (r', e', m, k') \<Rightarrow> (r', e', k')))"

definition update_metrics ::
  "('r \<Rightarrow> 'e \<Rightarrow> 'k \<Rightarrow> 'r \<times> 'e \<times> qd_metrics \<times> 'k) \<Rightarrow> 'r \<times> 'e \<times> 'k \<Rightarrow> qd_metrics" where
  "update_metrics update c =
     (case c of (r, e, k) \<Rightarrow> (case update r e k of (r', e', m, k') \<Rightarrow> m))"

definition metrics_of_steps ::
  "('r \<Rightarrow> 'e \<Rightarrow> 'k \<Rightarrow> 'r \<times> 'e \<times> qd_metrics \<times> 'k) \<Rightarrow> 'r \<times> 'e \<times> 'k \<Rightarrow> nat \<Rightarrow> qd_metrics list" where
  "metrics_of_steps update c n =
     map (\<lambda>j. update_metrics update ((update_step update ^^ j) c)) [0..<n]"

text \<open>
  The classes of the library that the notebook instantiates, in the order of the calls:
  the two reward wrappers and the two networks (cell "Init environment"), the transition
  (in \<^verbatim>\<open>play_step_fn\<close>), the emitter's configuration and the emitter, the MAP-Elites
  driver, and the logger.
\<close>

definition instantiated_classes :: "string list" where
  "instantiated_classes =
     [''OffsetRewardWrapper'', ''ClipRewardWrapper'', ''MLP'', ''MLPDC'', ''DCRLTransition'',
      ''DCRLMEConfig'', ''DCRLMEEmitter'', ''MAPElites'', ''CSVLogger'']"

subsection \<open>Sample instances\<close>

text \<open>
  A small environment, network, offset table, update and clock on which the properties
  are evaluated: two observations, one action, two descriptors; every step gives the raw
  reward \<open>-5\<close>.
\<close>

definition sample_state :: "unit EnvState" where
  "sample_state =
     \<lparr>pipeline_state = (),
      EnvState.obs = Vector [Num 1, Num 2],
      reward = Scalar (Num 0),
      done_flag = Scalar (Num 0),
      info = [''state_descriptor'' \<mapsto> Vector [Num 3, Num 4],
              ''truncation'' \<mapsto> Scalar (Num 0)]\<rparr>"

definition sample_created :: "(unit, unit) created_env" where
  "sample_created =
     \<lparr>created_reset = (\<lambda>rng. sample_state),
      created_step = (\<lambda>s a. s\<lparr>reward := Scalar (Num (- 5))\<rparr>),
      created_observation_size = 2,
      created_action_size = 1,
      created_behavior_descriptor_length = 2\<rparr>"

definition sample_create :: "string \<Rightarrow> int \<Rightarrow> (unit, unit) created_env" where
  "sample_create name len = sample_created"

definition sample_reward_offset :: "string \<rightharpoonup> real" where
  "sample_reward_offset = [''ant_omni'' \<mapsto> 3]"

definition sample_env :: "(unit, unit) env" where
  "sample_env = ClipRewardWrapper (OffsetRewardWrapper (Created sample_created) 3) (Some 0) None"

definition sample_forward :: "nat list \<Rightarrow> int \<Rightarrow> jarray \<Rightarrow> jarray" where
  "sample_forward sizes p x =
     (case sizes of [] \<Rightarrow> x | _ \<Rightarrow> Vector (replicate (last sizes) (Num 0)))"

definition sample_update :: "nat \<Rightarrow> unit \<Rightarrow> unit \<Rightarrow> nat \<times> unit \<times> qd_metrics \<times> unit" where
  "sample_update r e k =
     (Suc r, e, \<lparr>qd_score = Num (real r), max_fitness = Num 1, coverage = Num 50\<rparr>, k)"

definition sample_time :: "nat \<Rightarrow> real" where
  "sample_time n = real n"

definition sample_session :: session where
  "sample_session = \<lparr>installed = {}, modules = {}, shell_commands = [], displayed = []\<rparr>"

definition sample_pip :: "string \<Rightarrow> string set \<Rightarrow> string set" where
  "sample_pip command pkgs = insert ''qdax'' pkgs"

section \<open>Properties\<close>

subsection \<open>The step function\<close>

text \<open>The reward wrappers change the reward only.\<close>

lemma step_keeps_info: "info (step env s a) = info (created_step (unwrapped env) s a)"
  by (induction env) (simp_all add: Let_def)

lemma step_keeps_obs:
  "EnvState.obs (step env s a) = EnvState.obs (created_step (unwrapped env) s a)"
  by (induction env) (simp_all add: Let_def)

lemma step_keeps_done: "done_flag (step env s a) = done_flag (created_step (unwrapped env) s a)"
  by (induction env) (simp_all add: Let_def)

lemma zeros_times_nan: "times_scalar (jnp_zeros n) jnp_nan = Vector (replicate n NaN)"
  by (simp add: times_scalar_def jnp_zeros_def jnp_nan_def)

text \<open>When the three subscripts find their keys, the function returns.\<close>

lemma play_step_fn_returns:
  assumes "info s ''state_descriptor'' = Some sd"
    and "info (step env s (net_apply net pp (EnvState.obs s))) ''truncation'' = Some tr"
    and "info (step env s (net_apply net pp (EnvState.obs s))) ''state_descriptor'' = Some nsd"
  shows "play_step_fn env net s pp rk =
           Inr (step env s (net_apply net pp (EnvState.obs s)), pp, rk,
                \<lparr>obs = EnvState.obs s,
                 next_obs = EnvState.obs (step env s (net_apply net pp (EnvState.obs s))),
                 rewards = reward (step env s (net_apply net pp (EnvState.obs s))),
                 dones = done_flag (step env s (net_apply net pp (EnvState.obs s))),
                 truncations = tr,
                 actions = net_apply net pp (EnvState.obs s),
                 state_desc = sd,
                 next_state_desc = nsd,
                 desc = Vector (replicate (behavior_descriptor_length env) NaN),
                 desc_prime = Vector (replicate (behavior_descriptor_length env) NaN)\<rparr>)"
  using assms by (simp add: play_step_fn_def Let_def zeros_times_nan)

text \<open>What a returned tuple must be.\<close>

lemma play_step_fn_InrD:
  assumes "play_step_fn env net s pp rk = Inr (ns, pp', rk', t)"
  shows "ns = step env s (net_apply net pp (EnvState.obs s)) \<and> pp' = pp \<and> rk' = rk
       \<and> t = \<lparr>obs = EnvState.obs s,
             next_obs = EnvState.obs ns,
             rewards = reward ns,
             dones = done_flag ns,
             truncations = the (info ns ''truncation''),
             actions = net_apply net pp (EnvState.obs s),
             state_desc = the (info s ''state_descriptor''),
             next_state_desc = the (info ns ''state_descriptor''),
             desc = Vector (replicate (behavior_descriptor_length env) NaN),
             desc_prime = Vector (replicate (behavior_descriptor_length env) NaN)\<rparr>
       \<and> info s ''state_descriptor'' \<noteq> None \<and> info ns ''truncation'' \<noteq> None
       \<and> info ns ''state_descriptor'' \<noteq> None"
  using assms
  by (auto simp add: play_step_fn_def Let_def zeros_times_nan split: option.splits)

text \<open>The sample environment: the raw reward \<open>-5\<close> plus the offset \<open>3\<close>, clipped at \<open>0\<close>.\<close>

lemmas sample_defs = sample_env_def sample_created_def sample_state_def sample_forward_def
  policy_network_def policy_layer_sizes_def MLP_def action_size_def behavior_descriptor_length_def
  observation_size_def plus_scalar_def jnp_clip_def times_scalar_def jnp_zeros_def jnp_nan_def

lemma sample_step:
  "step sample_env sample_state a = sample_state\<lparr>reward := Scalar (Num 0)\<rparr>"
  by (simp add: sample_env_def sample_created_def plus_scalar_def jnp_clip_def)

lemma sample_play_step:
  "play_step_fn sample_env (policy_network sample_forward [128, 128] sample_env)
       sample_state (5::int) (7::nat)
     = Inr (sample_state\<lparr>reward := Scalar (Num 0)\<rparr>, 5, 7,
            \<lparr>obs = Vector [Num 1, Num 2], next_obs = Vector [Num 1, Num 2],
             rewards = Scalar (Num 0), dones = Scalar (Num 0),
             truncations = Scalar (Num 0), actions = Vector [Num 0],
             state_desc = Vector [Num 3, Num 4], next_state_desc = Vector [Num 3, Num 4],
             desc = Vector [NaN, NaN], desc_prime = Vector [NaN, NaN]\<rparr>)"
  by (simp add: play_step_fn_def Let_def sample_step)
     (simp add: sample_defs numeral_2_eq_2)

text \<open>
  Claim C2, as stated, fails in its closing clause: the transition is not the only object
  of a library class that the notebook instantiates.  It also instantiates, among others,
  the emitter's configuration, a record of eighteen fields, and the logger.
\<close>

theorem other_library_classes_counterexample:
  "instantiated_classes \<noteq> [''DCRLTransition'']
   \<and> ''DCRLMEConfig'' \<in> set instantiated_classes
   \<and> ''CSVLogger'' \<in> set instantiated_classes
   \<and> DCRLMEConfig.batch_size (dcrl_emitter_config notebook_settings) = 256
   \<and> header (CSVLogger ''dcrlme-logs.csv''
               [''loop'', ''iteration'', ''qd_score'', ''max_fitness'', ''coverage'', ''time''])
       = [''loop'', ''iteration'', ''qd_score'', ''max_fitness'', ''coverage'', ''time'']"
  by (simp add: instantiated_classes_def dcrl_emitter_config_def notebook_settings_def
      CSVLogger_def)

text \<open>
  Claim C2, amended.  The transition \<^verbatim>\<open>play_step_fn\<close> builds is assembled from the outputs
  of the environment step: the call returns \<open>(ns, pp', rk', t)\<close> exactly when \<open>ns\<close> is the
  state after stepping with the policy's action and \<open>t\<close> holds the observation before the
  step, the observation, reward, done flag and truncation flag after it, the action
  applied, the state descriptor before and after the step, and in \<open>desc\<close> and \<open>desc_prime\<close>
  the placeholder \<^verbatim>\<open>jnp.zeros(env.behavior_descriptor_length) * jnp.nan\<close>.
\<close>

theorem play_step_fn_transition:
  "play_step_fn env net s pp rk = Inr (ns, pp', rk', t) \<longleftrightarrow>
     ns = step env s (net_apply net pp (EnvState.obs s)) \<and> pp' = pp \<and> rk' = rk
     \<and> obs t = EnvState.obs s
     \<and> next_obs t = EnvState.obs ns
     \<and> rewards t = reward ns
     \<and> dones t = done_flag ns
     \<and> info ns ''truncation'' = Some (truncations t)
     \<and> actions t = net_apply net pp (EnvState.obs s)
     \<and> info s ''state_descriptor'' = Some (state_desc t)
     \<and> info ns ''state_descriptor'' = Some (next_state_desc t)
     \<and> desc t = times_scalar (jnp_zeros (behavior_descriptor_length env)) jnp_nan
     \<and> desc_prime t = times_scalar (jnp_zeros (behavior_descriptor_length env)) jnp_nan"
  (is "?L \<longleftrightarrow> ?R")
proof
  assume ?L
  from play_step_fn_InrD [OF this] show ?R
    by (auto simp add: zeros_times_nan)
next
  assume r: ?R
  let ?a = "net_apply net pp (EnvState.obs s)"
  from r have ns: "ns = step env s ?a" and pp: "pp' = pp" and rk: "rk' = rk"
    by simp_all
  from r have sd: "info s ''state_descriptor'' = Some (state_desc t)"
    by simp
  from r ns have tr: "info (step env s ?a) ''truncation'' = Some (truncations t)"
    and nsd: "info (step env s ?a) ''state_descriptor'' = Some (next_state_desc t)"
    by simp_all
  from r ns have t: "t = \<lparr>obs = EnvState.obs s,
                 next_obs = EnvState.obs (step env s ?a),
                 rewards = reward (step env s ?a),
                 dones = done_flag (step env s ?a),
                 truncations = truncations t,
                 actions = ?a,
                 state_desc = state_desc t,
                 next_state_desc = next_state_desc t,
                 desc = Vector (replicate (behavior_descriptor_length env) NaN),
                 desc_prime = Vector (replicate (behavior_descriptor_length env) NaN)\<rparr>"
    by (cases t) (simp add: zeros_times_nan)
  show ?L
    unfolding ns pp rk
    by (subst t) (rule play_step_fn_returns [OF sd tr nsd])
qed

theorem play_step_fn_transition_witness:
  "play_step_fn sample_env (policy_network sample_forward [128, 128] sample_env)
       sample_state (5::int) (7::nat)
     = Inr (sample_state\<lparr>reward := Scalar (Num 0)\<rparr>, 5, 7,
            \<lparr>obs = Vector [Num 1, Num 2], next_obs = Vector [Num 1, Num 2],
             rewards = Scalar (Num 0), dones = Scalar (Num 0),
             truncations = Scalar (Num 0), actions = Vector [Num 0],
             state_desc = Vector [Num 3, Num 4], next_state_desc = Vector [Num 3, Num 4],
             desc = Vector [NaN, NaN], desc_prime = Vector [NaN, NaN]\<rparr>)"
  by (simp add: play_step_fn_transition sample_step)
     (simp add: sample_defs numeral_2_eq_2)

text \<open>
  Claim C9.  \<^verbatim>\<open>play_step_fn\<close> passes the policy parameters and the random key through:
  whatever it returns carries the two arguments unchanged, and it does return (with them)
  whenever the state holds a state descriptor and the stepped state holds a truncation
  flag and a state descriptor.
\<close>

theorem play_step_fn_passes_params_and_key:
  "(\<forall>ns pp' rk' t. play_step_fn env net s pp rk = Inr (ns, pp', rk', t) \<longrightarrow> pp' = pp \<and> rk' = rk)
   \<and> (info s ''state_descriptor'' \<noteq> None
        \<and> info (step env s (net_apply net pp (EnvState.obs s))) ''truncation'' \<noteq> None
        \<and> info (step env s (net_apply net pp (EnvState.obs s))) ''state_descriptor'' \<noteq> None
      \<longrightarrow> (\<exists>ns t. play_step_fn env net s pp rk = Inr (ns, pp, rk, t)))"
proof (intro conjI allI impI)
  fix ns pp' rk' t
  assume "play_step_fn env net s pp rk = Inr (ns, pp', rk', t)"
  from play_step_fn_InrD [OF this] show "pp' = pp" and "rk' = rk"
    by simp_all
next
  let ?a = "net_apply net pp (EnvState.obs s)"
  assume "info s ''state_descriptor'' \<noteq> None
        \<and> info (step env s ?a) ''truncation'' \<noteq> None
        \<and> info (step env s ?a) ''state_descriptor'' \<noteq> None"
  then obtain sd tr nsd where sd: "info s ''state_descriptor'' = Some sd"
    and tr: "info (step env s ?a) ''truncation'' = Some tr"
    and nsd: "info (step env s ?a) ''state_descriptor'' = Some nsd"
    by auto
  show "\<exists>ns t. play_step_fn env net s pp rk = Inr (ns, pp, rk, t)"
    by (intro exI) (rule play_step_fn_returns [OF sd tr nsd])
qed

theorem play_step_fn_passes_params_and_key_witness:
  "\<exists>ns t. play_step_fn sample_env (policy_network sample_forward [128, 128] sample_env)
              sample_state (5::int) (7::nat) = Inr (ns, 5, 7, t)"
proof -
  let ?net = "policy_network sample_forward [128, 128] sample_env"
  have "info sample_state ''state_descriptor'' \<noteq> None
      \<and> info (step sample_env sample_state (net_apply ?net 5 (EnvState.obs sample_state)))
          ''truncation'' \<noteq> None
      \<and> info (step sample_env sample_state (net_apply ?net 5 (EnvState.obs sample_state)))
          ''state_descriptor'' \<noteq> None"
    by (simp add: sample_step) (simp add: sample_state_def)
  with play_step_fn_passes_params_and_key [of sample_env ?net sample_state 5 "7::nat"]
  show ?thesis
    by blast
qed

text \<open>
  Claim C10.  In every transition \<^verbatim>\<open>play_step_fn\<close> builds, \<open>desc\<close> and \<open>desc_prime\<close> are
  vectors of length \<^verbatim>\<open>env.behavior_descriptor_length\<close> whose every entry is NaN.
\<close>

theorem play_step_fn_descriptor_placeholders:
  assumes "play_step_fn env net s pp rk = Inr (ns, pp', rk', t)"
  shows "shape (desc t) = [behavior_descriptor_length env] \<and> all_nan (desc t)
       \<and> shape (desc_prime t) = [behavior_descriptor_length env] \<and> all_nan (desc_prime t)"
proof -
  from play_step_fn_InrD [OF assms]
  have "desc t = Vector (replicate (behavior_descriptor_length env) NaN)"
    and "desc_prime t = Vector (replicate (behavior_descriptor_length env) NaN)"
    by simp_all
  then show ?thesis
    by (simp add: all_nan_def list_all_iff)
qed

theorem play_step_fn_descriptor_placeholders_witness:
  "shape (Vector [NaN, NaN]) = [behavior_descriptor_length sample_env]
   \<and> all_nan (Vector [NaN, NaN])"
  using play_step_fn_descriptor_placeholders [OF sample_play_step]
  by simp

subsection \<open>The environment and its wrappers\<close>

lemma entries_map_entries: "entries (map_entries f a) = map f (entries a)"
  by (cases a) simp_all

lemma shape_map_entries: "shape (map_entries f a) = shape a"
  by (cases a) simp_all

lemma init_environment_Inr:
  "init_environment create tab name len = Inr env \<longleftrightarrow>
     (\<exists>off. tab name = Some off
        \<and> env = ClipRewardWrapper (OffsetRewardWrapper (Created (create name len)) off) (Some 0) None)"
  by (auto simp add: init_environment_def Let_def split: option.splits)

lemma sample_init_environment:
  "init_environment sample_create sample_reward_offset ''ant_omni'' 250 = Inr sample_env"
  by (simp add: init_environment_def sample_reward_offset_def sample_create_def sample_env_def)

text \<open>
  Claim C6, as stated, fails: on the sample factory and offset table the environment the
  notebook builds has two wrappers around the factory's output, not exactly one.
\<close>

theorem init_environment_one_wrapper_counterexample:
  "init_environment sample_create sample_reward_offset ''ant_omni'' 250 = Inr sample_env
   \<and> wrappers sample_env = [''ClipRewardWrapper'', ''OffsetRewardWrapper'']
   \<and> length (wrappers sample_env) \<noteq> 1"
  by (simp add: sample_init_environment) (simp add: sample_env_def)

text \<open>
  Claim C6, amended.  The notebook applies two reward-shaping wrappers to the constructed
  environment: whenever the cell returns an environment, it is the factory's output under
  \<^verbatim>\<open>OffsetRewardWrapper\<close> with the table's offset, under \<^verbatim>\<open>ClipRewardWrapper\<close> with
  \<^verbatim>\<open>clip_min=0.\<close> and no upper bound; and the cell returns it whenever the offset table
  knows the environment's name.
\<close>

theorem init_environment_two_wrappers:
  "(\<forall>env. init_environment create tab name len = Inr env \<longrightarrow>
      wrappers env = [''ClipRewardWrapper'', ''OffsetRewardWrapper'']
      \<and> unwrapped env = create name len
      \<and> (\<exists>off. tab name = Some off
            \<and> env = ClipRewardWrapper
                      (OffsetRewardWrapper (Created (create name len)) off) (Some 0) None))
   \<and> (\<forall>off. tab name = Some off \<longrightarrow>
        init_environment create tab name len
          = Inr (ClipRewardWrapper
                   (OffsetRewardWrapper (Created (create name len)) off) (Some 0) None))"
  by (auto simp add: init_environment_Inr)

theorem init_environment_two_wrappers_witness:
  "init_environment sample_create sample_reward_offset ''ant_omni'' 250
     = Inr (ClipRewardWrapper
              (OffsetRewardWrapper (Created (sample_create ''ant_omni'' 250)) 3) (Some 0) None)
   \<and> wrappers sample_env = [''ClipRewardWrapper'', ''OffsetRewardWrapper'']"
proof -
  have off: "sample_reward_offset ''ant_omni'' = Some 3"
    by (simp add: sample_reward_offset_def)
  from init_environment_two_wrappers [of sample_create sample_reward_offset "''ant_omni''" 250]
    off sample_init_environment
  show ?thesis
    by simp
qed

lemma clipped_offset_entry:
  "x \<noteq> NaN \<Longrightarrow> (case fmaximum (fadd x (Num off)) (Num 0) of Num r \<Rightarrow> 0 \<le> r | NaN \<Rightarrow> False)"
  by (cases x) simp_all

lemma notebook_env_reward:
  "reward (step (ClipRewardWrapper (OffsetRewardWrapper (Created b) off) (Some 0) None) s a)
     = map_entries (\<lambda>x. fmaximum (fadd x (Num off)) (Num 0)) (reward (created_step b s a))"
  by (cases "reward (created_step b s a)")
     (simp_all add: Let_def jnp_clip_def plus_scalar_def)

lemma nan_reward_stays_nan:
  "reward (created_step b s a) = Scalar NaN \<Longrightarrow>
   reward (step (ClipRewardWrapper (OffsetRewardWrapper (Created b) off) (Some 0) None) s a)
     = Scalar NaN"
  by (simp only: notebook_env_reward) simp

text \<open>
  Claim C8.  In the environment the notebook builds (offset wrapper, then clip wrapper with
  \<^verbatim>\<open>clip_min=0.\<close>), every reward recorded in a transition of \<^verbatim>\<open>play_step_fn\<close> is
  non-negative, the raw reward of the factory's environment being a number (both wrappers
  propagate NaN, as the lemma above shows).
\<close>

theorem recorded_reward_non_negative:
  assumes init: "init_environment create tab name len = Inr env"
    and run: "play_step_fn env net s pp rk = Inr (ns, pp', rk', t)"
    and num: "\<not> has_nan (reward (created_step (create name len) s
                                   (net_apply net pp (EnvState.obs s))))"
  shows "non_negative (rewards t)"
proof -
  let ?a = "net_apply net pp (EnvState.obs s)"
  let ?raw = "reward (created_step (create name len) s ?a)"
  from init obtain off where
    env: "env = ClipRewardWrapper (OffsetRewardWrapper (Created (create name len)) off) (Some 0) None"
    by (auto simp add: init_environment_Inr)
  from play_step_fn_InrD [OF run] have "rewards t = reward (step env s ?a)"
    by simp
  then have "rewards t = map_entries (\<lambda>x. fmaximum (fadd x (Num off)) (Num 0)) ?raw"
    by (simp only: env notebook_env_reward)
  moreover from num have "\<forall>x \<in> set (entries ?raw). x \<noteq> NaN"
    by (auto simp add: has_nan_def)
  ultimately show ?thesis
    by (simp add: non_negative_def entries_map_entries list_all_iff clipped_offset_entry)
qed

theorem recorded_reward_non_negative_witness:
  "init_environment sample_create sample_reward_offset ''ant_omni'' 250 = Inr sample_env
   \<and> reward (created_step (sample_create ''ant_omni'' 250) sample_state (Vector [Num 0]))
       = Scalar (Num (- 5))
   \<and> non_negative (Scalar (Num 0))"
proof -
  have "\<not> has_nan (reward (created_step (sample_create ''ant_omni'' 250) sample_state
              (net_apply (policy_network sample_forward [128, 128] sample_env) 5
                 (EnvState.obs sample_state))))"
    by (simp add: has_nan_def sample_create_def sample_created_def)
  from recorded_reward_non_negative [OF sample_init_environment sample_play_step this]
  show ?thesis
    by (simp add: sample_init_environment) (simp add: sample_create_def sample_created_def)
qed

text \<open>
  Claim C3.  The fields of the transition \<^verbatim>\<open>play_step_fn\<close> returns have the environment's
  declared dimensions: for an environment that keeps its declaration, a state that fits it
  and a policy network whose output is as long as its last layer is wide, the function
  returns, and \<open>obs\<close> and \<open>next_obs\<close> have length \<^verbatim>\<open>env.observation_size\<close>, \<open>actions\<close> has
  length \<^verbatim>\<open>env.action_size\<close>, and \<open>state_desc\<close>, \<open>next_state_desc\<close>, \<open>desc\<close> and
  \<open>desc_prime\<close> have length \<^verbatim>\<open>env.behavior_descriptor_length\<close>.
\<close>

theorem transition_shapes:
  assumes env: "keeps_declaration (unwrapped env)"
    and fits: "state_fits (unwrapped env) s"
    and mlp: "output_is_last_layer forward"
  shows "\<exists>ns t. play_step_fn env (policy_network forward hidden env) s pp rk = Inr (ns, pp, rk, t)
          \<and> shape (obs t) = [observation_size env]
          \<and> shape (next_obs t) = [observation_size env]
          \<and> shape (actions t) = [action_size env]
          \<and> shape (state_desc t) = [behavior_descriptor_length env]
          \<and> shape (next_state_desc t) = [behavior_descriptor_length env]
          \<and> shape (desc t) = [behavior_descriptor_length env]
          \<and> shape (desc_prime t) = [behavior_descriptor_length env]"
proof -
  let ?net = "policy_network forward hidden env"
  let ?a = "net_apply ?net pp (EnvState.obs s)"
  let ?b = "unwrapped env"
  have a: "shape ?a = [created_action_size ?b]"
    using mlp
    by (simp add: output_is_last_layer_def policy_network_def MLP_def policy_layer_sizes_def
        action_size_def)
  with env fits have next_fits: "state_fits ?b (created_step ?b s ?a)"
    unfolding keeps_declaration_def by blast
  from fits obtain sd where sd: "info s ''state_descriptor'' = Some sd"
    and sd_shape: "shape sd = [created_behavior_descriptor_length ?b]"
    and obs_shape: "shape (EnvState.obs s) = [created_observation_size ?b]"
    by (auto simp add: state_fits_def split: option.splits)
  from next_fits obtain nsd tr where nsd: "info (step env s ?a) ''state_descriptor'' = Some nsd"
    and nsd_shape: "shape nsd = [created_behavior_descriptor_length ?b]"
    and tr: "info (step env s ?a) ''truncation'' = Some tr"
    and next_obs_shape: "shape (EnvState.obs (step env s ?a)) = [created_observation_size ?b]"
    by (auto simp add: state_fits_def step_keeps_info step_keeps_obs split: option.splits)
  note run = play_step_fn_returns [OF sd tr nsd, of rk]
  show ?thesis
    by (intro exI conjI, rule run)
       (simp_all add: a sd_shape obs_shape nsd_shape next_obs_shape observation_size_def
          action_size_def behavior_descriptor_length_def)
qed

lemma sample_keeps_declaration: "keeps_declaration sample_created"
  by (simp add: keeps_declaration_def state_fits_def sample_created_def)

lemma sample_state_fits: "state_fits sample_created sample_state"
  by (simp add: state_fits_def sample_created_def sample_state_def)

lemma sample_forward_last_layer: "output_is_last_layer sample_forward"
  by (simp add: output_is_last_layer_def sample_forward_def split: list.splits)

theorem transition_shapes_witness:
  "\<exists>ns t. play_step_fn sample_env (policy_network sample_forward [128, 128] sample_env)
            sample_state (5::int) (7::nat) = Inr (ns, 5, 7, t)
          \<and> shape (obs t) = [2] \<and> shape (next_obs t) = [2] \<and> shape (actions t) = [1]
          \<and> shape (state_desc t) = [2] \<and> shape (next_state_desc t) = [2]
          \<and> shape (desc t) = [2] \<and> shape (desc_prime t) = [2]"
proof -
  have u: "unwrapped sample_env = sample_created"
    by (simp add: sample_env_def)
  have dims: "observation_size sample_env = 2" "action_size sample_env = 1"
    "behavior_descriptor_length sample_env = 2"
    by (simp_all add: observation_size_def action_size_def behavior_descriptor_length_def u)
       (simp_all add: sample_created_def)
  from transition_shapes [of sample_env sample_state sample_forward "[128, 128]" 5 "7::nat"]
    sample_keeps_declaration sample_state_fits sample_forward_last_layer
  show ?thesis
    by (simp add: u dims)
qed

subsection \<open>The emitter configuration\<close>

text \<open>
  Claim C7.  Every parameter of the DCRL emitter named in the settings is passed unchanged
  into \<^verbatim>\<open>DCRLMEConfig\<close>, field for field.
\<close>

theorem dcrl_emitter_config_fields:
  "DCRLMEConfig.ga_batch_size (dcrl_emitter_config g) = settings.ga_batch_size g
   \<and> DCRLMEConfig.dcrl_batch_size (dcrl_emitter_config g) = settings.dcrl_batch_size g
   \<and> DCRLMEConfig.ai_batch_size (dcrl_emitter_config g) = settings.ai_batch_size g
   \<and> DCRLMEConfig.lengthscale (dcrl_emitter_config g) = settings.lengthscale g
   \<and> DCRLMEConfig.critic_hidden_layer_size (dcrl_emitter_config g)
       = settings.critic_hidden_layer_size g
   \<and> DCRLMEConfig.num_critic_training_steps (dcrl_emitter_config g)
       = settings.num_critic_training_steps g
   \<and> DCRLMEConfig.num_pg_training_steps (dcrl_emitter_config g)
       = settings.num_pg_training_steps g
   \<and> DCRLMEConfig.batch_size (dcrl_emitter_config g) = settings.batch_size g
   \<and> DCRLMEConfig.replay_buffer_size (dcrl_emitter_config g) = settings.replay_buffer_size g
   \<and> DCRLMEConfig.discount (dcrl_emitter_config g) = settings.discount g
   \<and> DCRLMEConfig.reward_scaling (dcrl_emitter_config g) = settings.reward_scaling g
   \<and> DCRLMEConfig.critic_learning_rate (dcrl_emitter_config g)
       = settings.critic_learning_rate g
   \<and> DCRLMEConfig.actor_learning_rate (dcrl_emitter_config g) = settings.actor_learning_rate g
   \<and> DCRLMEConfig.policy_learning_rate (dcrl_emitter_config g)
       = settings.policy_learning_rate g
   \<and> DCRLMEConfig.noise_clip (dcrl_emitter_config g) = settings.noise_clip g
   \<and> DCRLMEConfig.policy_noise (dcrl_emitter_config g) = settings.policy_noise g
   \<and> DCRLMEConfig.soft_tau_update (dcrl_emitter_config g) = settings.soft_tau_update g
   \<and> DCRLMEConfig.policy_delay (dcrl_emitter_config g) = settings.policy_delay g"
  by (simp add: dcrl_emitter_config_def)

theorem dcrl_emitter_config_fields_witness:
  "dcrl_emitter_config notebook_settings =
     \<lparr>ga_batch_size = 128, dcrl_batch_size = 64, ai_batch_size = 64, lengthscale = 1 / 10,
      critic_hidden_layer_size = [256, 256], num_critic_training_steps = 3000,
      num_pg_training_steps = 150, batch_size = 256, replay_buffer_size = 1000000,
      discount = 99 / 100, reward_scaling = 1, critic_learning_rate = 3 / 10000,
      actor_learning_rate = 3 / 10000, policy_learning_rate = 5 / 1000, noise_clip = 1 / 2,
      policy_noise = 2 / 10, soft_tau_update = 5 / 1000, policy_delay = 2\<rparr>"
  using dcrl_emitter_config_fields [of notebook_settings]
  by (cases "dcrl_emitter_config notebook_settings") (simp add: notebook_settings_def)

subsection \<open>The main loop\<close>

text \<open>
  The float division by \<^verbatim>\<open>log_period\<close>: below \<open>10 * 2 ^ 50\<close> in absolute value the
  rounding of the quotient does not reach the next integer, and \<^verbatim>\<open>int\<close> of it is the
  integer quotient truncated towards zero.
\<close>

lemma round_half_even_near:
  "x - 1 / 2 \<le> of_int (round_half_even x) \<and> of_int (round_half_even x) \<le> x + 1 / 2"
proof -
  have "of_int \<lfloor>x\<rfloor> \<le> x" and "x < of_int \<lfloor>x\<rfloor> + 1"
    by linarith+
  then show ?thesis
    by (auto simp add: round_half_even_def Let_def, linarith+)
qed

lemma bitlen_small:
  assumes "0 < a" and "a < 10 * 2 ^ 50"
  shows "1 \<le> bitlen a" and "bitlen a \<le> 54"
proof -
  from assms(1) show "1 \<le> bitlen a"
    by (simp add: bitlen_alt_def)
  from assms have "a < 2 ^ 54"
    by simp
  then show "bitlen a \<le> 54"
    by (simp add: bitlen_le_iff_power)
qed

lemma bitlen_10: "bitlen 10 = 4"
  by code_simp

lemma binary_exponent_small:
  assumes "0 < a" and "a < 10 * 2 ^ 50"
  shows "- 4 \<le> binary_exponent a 10" and "binary_exponent a 10 \<le> 49"
proof -
  note b = bitlen_small [OF assms]
  from b show "- 4 \<le> binary_exponent a 10"
    by (simp add: binary_exponent_def Let_def bitlen_10)
  show "binary_exponent a 10 \<le> 49"
  proof (cases "bitlen a = 54")
    case True
    from assms(2) have "real_of_int a < real_of_int (10 * 2 ^ 50)"
      by (simp only: of_int_less_iff)
    then have "\<not> (10 * 2 ^ 50 \<le> real_of_int a)"
      by simp
    then show ?thesis
      by (simp add: binary_exponent_def Let_def bitlen_10 True pow2_def)
  next
    case False
    with b show ?thesis
      by (simp add: binary_exponent_def Let_def bitlen_10)
  qed
qed

lemma nearest_binary64_tenth:
  assumes "0 < a" and "a < 10 * 2 ^ 50"
  shows "\<lfloor>nearest_binary64 a 10\<rfloor> = a div 10"
proof -
  define e where "e = binary_exponent a 10"
  define j where "j = nat (52 - e)"
  from binary_exponent_small [OF assms] have e: "- 4 \<le> e" "e \<le> 49"
    by (simp_all add: e_def)
  then have j: "3 \<le> j"
    by (simp add: j_def)
  from e have ulp: "pow2 (max e (- 1022) - 52) = 1 / 2 ^ j"
    by (simp add: pow2_def j_def)
  define q where "q = a div 10"
  define r where "r = a mod 10"
  have a: "a = 10 * q + r" and r: "0 \<le> r" "r \<le> 9"
    by (simp_all add: q_def r_def)
  define z where "z = real_of_int a / 10 * 2 ^ j"
  define R where "R = round_half_even z"
  have near: "nearest_binary64 a 10 = of_int R / 2 ^ j"
    by (simp add: nearest_binary64_def Let_def e_def [symmetric] ulp R_def z_def)
  have eight: "(8::real) \<le> 2 ^ j"
  proof -
    have "(2::real) ^ 3 \<le> 2 ^ j"
      using j by (intro power_increasing) simp_all
    then show ?thesis by simp
  qed
  define P :: real where "P = 2 ^ j"
  from eight have P8: "8 \<le> P"
    by (simp add: P_def)
  have z: "z = of_int q * P + of_int r * P / 10"
    by (simp add: z_def a P_def [symmetric] add_divide_distrib distrib_right)
  from round_half_even_near [of z]
  have lo: "z - 1 / 2 \<le> of_int R" and hi: "of_int R \<le> z + 1 / 2"
    by (simp_all add: R_def)
  from r P8 have rP: "0 \<le> of_int r * P" and rP9: "of_int r * P \<le> 9 * P"
    by (simp_all add: mult_right_mono)
  from lo z rP have "of_int q * P - 1 / 2 \<le> of_int R"
    by linarith
  then have "of_int q * P < real_of_int R + 1"
    by linarith
  then have "real_of_int (q * 2 ^ j) < real_of_int (R + 1)"
    by (simp add: P_def)
  then have "q * 2 ^ j < R + 1"
    by (simp only: of_int_less_iff)
  then have low: "q * 2 ^ j \<le> R"
    by simp
  from hi z rP9 P8 have "of_int R < of_int q * P + P"
    by linarith
  then have "real_of_int R < real_of_int ((q + 1) * 2 ^ j)"
    by (simp add: P_def distrib_right)
  then have high: "R < (q + 1) * 2 ^ j"
    by (simp only: of_int_less_iff)
  define t where "t = R - q * 2 ^ j"
  from low high have t: "0 \<le> t" "t < 2 ^ j"
    by (simp_all add: t_def distrib_right)
  have "R = t + q * 2 ^ j"
    by (simp add: t_def)
  moreover have "(t + q * 2 ^ j) div 2 ^ j = q + t div 2 ^ j"
    by (rule div_mult_self1) simp
  moreover from t have "t div 2 ^ j = 0"
    by (simp add: div_pos_pos_trivial)
  ultimately have "R div 2 ^ j = q"
    by simp
  moreover have "\<lfloor>real_of_int R / 2 ^ j\<rfloor> = R div 2 ^ j"
    using floor_divide_of_int_eq [of R "2 ^ j", where ?'a = real] by simp
  ultimately show ?thesis
    by (simp add: near q_def)
qed

lemma num_loops_small:
  assumes "\<bar>n\<bar> < 10 * 2 ^ 50"
  shows "num_loops n = Inr (sgn n * (\<bar>n\<bar> div 10))"
proof (cases "n = 0")
  case True
  then show ?thesis
    by (simp add: num_loops_def py_truediv_def log_period_def py_int_def)
next
  case False
  define y where "y = nearest_binary64 \<bar>n\<bar> 10"
  from False assms have "0 < \<bar>n\<bar>" and "\<bar>n\<bar> < 10 * 2 ^ 50"
    by simp_all
  then have fl: "\<lfloor>y\<rfloor> = \<bar>n\<bar> div 10"
    unfolding y_def by (rule nearest_binary64_tenth)
  have "0 \<le> \<bar>n\<bar> div 10"
    by simp
  with fl have y0: "0 \<le> y"
    by (simp add: zero_le_floor [symmetric])
  from assms have "\<bar>n\<bar> div 10 < 2 ^ 50"
    by simp
  with fl have "\<lfloor>y\<rfloor> < 2 ^ 50"
    by simp
  then have "y < 2 ^ 50"
    by (simp add: floor_less_iff)
  also have "(2::real) ^ 50 < 2 ^ 1024"
    by (rule power_strict_increasing) simp_all
  finally have fin: "\<not> 2 ^ 1024 \<le> y"
    by simp
  have div: "py_truediv n log_period = Inr (of_int (sgn n) * y)"
    using False fin by (simp add: py_truediv_def log_period_def Let_def y_def [symmetric])
  show ?thesis
  proof (cases "0 < n")
    case True
    with y0 fl show ?thesis
      by (simp add: num_loops_def div py_int_def)
  next
    case neg: False
    with False have n: "n < 0"
      by simp
    have "py_int (- y) = - \<lfloor>y\<rfloor>"
    proof (cases "y = 0")
      case True
      then show ?thesis by (simp add: py_int_def)
    next
      case False
      with y0 have "\<not> 0 \<le> - y" by simp
      then show ?thesis by (simp add: py_int_def ceiling_minus)
    qed
    with n fl show ?thesis
      by (simp add: num_loops_def div)
  qed
qed

lemma num_loops_30: "num_loops 30 = Inr 3"
  using num_loops_small [of 30] by simp

lemma num_loops_minus_15: "num_loops (- 15) = Inr (- 1)"
  using num_loops_small [of "- 15"] by simp

text \<open>
  A scan over \<^verbatim>\<open>update_scan_fn\<close> applies the update step by step and stacks the metrics
  of the steps.
\<close>

lemma update_scan_fn_step:
  "update_scan_fn update c u = (update_step update c, update_metrics update c)"
  by (simp add: update_scan_fn_def update_step_def update_metrics_def split: prod.splits)

lemma metrics_of_steps_0: "metrics_of_steps update c 0 = []"
  by (simp add: metrics_of_steps_def)

lemma metrics_of_steps_add:
  "metrics_of_steps update c (a + b)
     = metrics_of_steps update c a @ metrics_of_steps update ((update_step update ^^ a) c) b"
proof -
  define F where "F = (\<lambda>j. update_metrics update ((update_step update ^^ j) c))"
  have split: "[0..<a + b] = [0..<a] @ [a..<a + b]"
    using upt_add_eq_append [of 0 a b] by simp
  have shift: "[a..<a + b] = map (\<lambda>j. j + a) [0..<b]"
    using map_add_upt [of a b] by (simp only: add.commute [of a b])
  have "map F [0..<a + b] = map F [0..<a] @ map (\<lambda>j. F (j + a)) [0..<b]"
    by (simp only: split shift map_append map_map o_def)
  moreover have "F (j + a) = update_metrics update ((update_step update ^^ j)
                               ((update_step update ^^ a) c))" for j
    by (simp only: F_def funpow_add o_apply)
  ultimately show ?thesis
    by (simp only: metrics_of_steps_def F_def [symmetric])
qed

lemma metrics_of_steps_1: "metrics_of_steps update c (Suc 0) = [update_metrics update c]"
  by (simp add: metrics_of_steps_def)

lemma lax_scan_update:
  "lax_scan (update_scan_fn update) c n
     = ((update_step update ^^ n) c, metrics_of_steps update c n)"
proof (induction n arbitrary: c)
  case 0
  show ?case
    by (simp add: metrics_of_steps_0)
next
  case (Suc n)
  have first: "update_scan_fn update c () = (update_step update c, update_metrics update c)"
    by (rule update_scan_fn_step)
  have rest: "lax_scan (update_scan_fn update) (update_step update c) n
      = ((update_step update ^^ n) (update_step update c),
         metrics_of_steps update (update_step update c) n)"
    by (rule Suc.IH)
  have "lax_scan (update_scan_fn update) c (Suc n)
      = ((update_step update ^^ n) (update_step update c),
         update_metrics update c # metrics_of_steps update (update_step update c) n)"
    by (simp only: lax_scan.simps first rest prod.case)
  moreover
  have "(update_step update ^^ Suc n) c = (update_step update ^^ n) (update_step update c)"
    by (simp only: funpow_Suc_right o_apply)
  moreover have "metrics_of_steps update c (Suc n)
      = update_metrics update c # metrics_of_steps update (update_step update c) n"
    using metrics_of_steps_add [of update c "Suc 0" n]
    by (simp add: metrics_of_steps_1)
  ultimately show ?case
    by (simp only:)
qed

lemma log_items_stacked:
  assumes "ms \<noteq> []"
  shows "log_items (stacked_items ms) lg al =
    Inr (lg(''coverage'' \<mapsto> PyScalar (coverage (last ms)),
            ''max_fitness'' \<mapsto> PyScalar (max_fitness (last ms)),
            ''qd_score'' \<mapsto> PyScalar (qd_score (last ms))),
         al(''coverage'' \<mapsto> (case al ''coverage'' of None \<Rightarrow> [] | Some v \<Rightarrow> v) @ map coverage ms,
            ''max_fitness'' \<mapsto> (case al ''max_fitness'' of None \<Rightarrow> [] | Some v \<Rightarrow> v) @ map max_fitness ms,
            ''qd_score'' \<mapsto> (case al ''qd_score'' of None \<Rightarrow> [] | Some v \<Rightarrow> v) @ map qd_score ms))"
  using assms
  by (simp add: stacked_items_def Let_def last_map split: option.splits)

lemma nat_log_period: "nat log_period = 10"
  by (simp add: log_period_def)

lemma length_metrics_of_steps: "length (metrics_of_steps update c n) = n"
  by (simp add: metrics_of_steps_def)

lemma loop_body_step:
  obtains st' row where "loop_body update time_at i st = Inr st'"
    and "carry_of st' = (update_step update ^^ 10) (carry_of st)"
    and "csv st' = (csv st)\<lparr>rows := rows (csv st) @ [row]\<rparr>"
    and "dom row = {''loop'', ''iteration'', ''qd_score'', ''max_fitness'', ''coverage'', ''time''}"
    and "row ''loop'' = Some (PyInt (1 + i))"
    and "row ''iteration'' = Some (PyInt (1 + i * log_period))"
    and "collected st' ''coverage''
           = collected st ''coverage'' @ map coverage (metrics_of_steps update (carry_of st) 10)"
    and "collected st' ''max_fitness''
           = collected st ''max_fitness''
               @ map max_fitness (metrics_of_steps update (carry_of st) 10)"
    and "collected st' ''qd_score''
           = collected st ''qd_score'' @ map qd_score (metrics_of_steps update (carry_of st) 10)"
    and "clock_reads st' = clock_reads st + 2"
proof -
  define ms where "ms = metrics_of_steps update (carry_of st) 10"
  obtain r e k where c: "(update_step update ^^ 10) (carry_of st) = (r, e, k)"
    by (cases "(update_step update ^^ 10) (carry_of st)")
  have scan: "lax_scan (update_scan_fn update) (carry_of st) 10 = ((r, e, k), ms)"
    by (simp only: lax_scan_update c ms_def)
  have "length ms = 10"
    by (simp add: ms_def length_metrics_of_steps)
  then have ne: "ms \<noteq> []"
    by auto
  define row where "row =
    [''time'' \<mapsto> PyFloat (time_at (Suc (clock_reads st)) - time_at (clock_reads st)),
     ''loop'' \<mapsto> PyInt (1 + i),
     ''iteration'' \<mapsto> PyInt (1 + i * log_period),
     ''coverage'' \<mapsto> PyScalar (coverage (last ms)),
     ''max_fitness'' \<mapsto> PyScalar (max_fitness (last ms)),
     ''qd_score'' \<mapsto> PyScalar (qd_score (last ms))]"
  define st' where "st' =
    \<lparr>repertoire = r, emitter_state = e, random_key = k,
     all_metrics = (all_metrics st)
       (''coverage'' \<mapsto> collected st ''coverage'' @ map coverage ms,
        ''max_fitness'' \<mapsto> collected st ''max_fitness'' @ map max_fitness ms,
        ''qd_score'' \<mapsto> collected st ''qd_score'' @ map qd_score ms),
     csv = log_row (csv st) row,
     clock_reads = Suc (Suc (clock_reads st))\<rparr>"
  from scan have body: "loop_body update time_at i st = Inr st'"
    by (simp add: loop_body_def nat_log_period Let_def log_items_stacked [OF ne]
        carry_of_def st'_def row_def collected_def)
  have p1: "carry_of st' = (update_step update ^^ 10) (carry_of st)"
    by (simp add: c) (simp add: carry_of_def st'_def)
  have p2: "csv st' = (csv st)\<lparr>rows := rows (csv st) @ [row]\<rparr>"
    by (simp add: st'_def log_row_def)
  have p3: "dom row = {''loop'', ''iteration'', ''qd_score'', ''max_fitness'', ''coverage'', ''time''}"
    by (auto simp add: row_def)
  have p4: "row ''loop'' = Some (PyInt (1 + i))"
    and p5: "row ''iteration'' = Some (PyInt (1 + i * log_period))"
    by (simp_all add: row_def)
  have p6: "collected st' ''coverage'' = collected st ''coverage'' @ map coverage ms"
    and p7: "collected st' ''max_fitness'' = collected st ''max_fitness'' @ map max_fitness ms"
    and p8: "collected st' ''qd_score'' = collected st ''qd_score'' @ map qd_score ms"
    by (simp_all add: collected_def st'_def)
  have p9: "clock_reads st' = clock_reads st + 2"
    by (simp add: st'_def)
  show ?thesis
    by (rule that [OF body p1 p2 p3 p4 p5 p6 [unfolded ms_def] p7 [unfolded ms_def]
          p8 [unfolded ms_def] p9])
qed

lemma for_loop_main:
  obtains st' rs where "for_loop (loop_body update time_at) idx st = Inr st'"
    and "carry_of st' = (update_step update ^^ (10 * length idx)) (carry_of st)"
    and "csv st' = (csv st)\<lparr>rows := rows (csv st) @ rs\<rparr>"
    and "length rs = length idx"
    and "\<forall>row \<in> set rs.
           dom row = {''loop'', ''iteration'', ''qd_score'', ''max_fitness'', ''coverage'', ''time''}"
    and "map (\<lambda>row. row ''loop'') rs = map (\<lambda>i. Some (PyInt (1 + i))) idx"
    and "map (\<lambda>row. row ''iteration'') rs = map (\<lambda>i. Some (PyInt (1 + i * log_period))) idx"
    and "collected st' ''coverage''
           = collected st ''coverage''
               @ map coverage (metrics_of_steps update (carry_of st) (10 * length idx))"
    and "collected st' ''max_fitness''
           = collected st ''max_fitness''
               @ map max_fitness (metrics_of_steps update (carry_of st) (10 * length idx))"
    and "collected st' ''qd_score''
           = collected st ''qd_score''
               @ map qd_score (metrics_of_steps update (carry_of st) (10 * length idx))"
proof (induction idx arbitrary: st thesis)
  case Nil
  show ?case
    by (rule Nil.prems [of st "[]"]) (simp_all add: metrics_of_steps_0)
next
  case (Cons i idx)
  obtain st1 row where body: "loop_body update time_at i st = Inr st1"
    and carry1: "carry_of st1 = (update_step update ^^ 10) (carry_of st)"
    and csv1: "csv st1 = (csv st)\<lparr>rows := rows (csv st) @ [row]\<rparr>"
    and dom1: "dom row = {''loop'', ''iteration'', ''qd_score'', ''max_fitness'', ''coverage'', ''time''}"
    and loop1: "row ''loop'' = Some (PyInt (1 + i))"
    and iter1: "row ''iteration'' = Some (PyInt (1 + i * log_period))"
    and cov1: "collected st1 ''coverage''
           = collected st ''coverage'' @ map coverage (metrics_of_steps update (carry_of st) 10)"
    and fit1: "collected st1 ''max_fitness''
           = collected st ''max_fitness''
               @ map max_fitness (metrics_of_steps update (carry_of st) 10)"
    and qd1: "collected st1 ''qd_score''
           = collected st ''qd_score'' @ map qd_score (metrics_of_steps update (carry_of st) 10)"
    by (rule loop_body_step [of update time_at i st])
  obtain st2 rs where rest: "for_loop (loop_body update time_at) idx st1 = Inr st2"
    and carry2: "carry_of st2 = (update_step update ^^ (10 * length idx)) (carry_of st1)"
    and csv2: "csv st2 = (csv st1)\<lparr>rows := rows (csv st1) @ rs\<rparr>"
    and len2: "length rs = length idx"
    and dom2: "\<forall>row \<in> set rs.
           dom row = {''loop'', ''iteration'', ''qd_score'', ''max_fitness'', ''coverage'', ''time''}"
    and loop2: "map (\<lambda>row. row ''loop'') rs = map (\<lambda>i. Some (PyInt (1 + i))) idx"
    and iter2: "map (\<lambda>row. row ''iteration'') rs
                  = map (\<lambda>i. Some (PyInt (1 + i * log_period))) idx"
    and cov2: "collected st2 ''coverage''
           = collected st1 ''coverage''
               @ map coverage (metrics_of_steps update (carry_of st1) (10 * length idx))"
    and fit2: "collected st2 ''max_fitness''
           = collected st1 ''max_fitness''
               @ map max_fitness (metrics_of_steps update (carry_of st1) (10 * length idx))"
    and qd2: "collected st2 ''qd_score''
           = collected st1 ''qd_score''
               @ map qd_score (metrics_of_steps update (carry_of st1) (10 * length idx))"
    by (rule Cons.IH [of st1])
  have total: "10 * length (i # idx) = 10 + 10 * length idx"
    by simp
  have steps: "metrics_of_steps update (carry_of st) (10 * length (i # idx))
      = metrics_of_steps update (carry_of st) 10
          @ metrics_of_steps update (carry_of st1) (10 * length idx)"
    by (simp only: total metrics_of_steps_add carry1)
  have run: "for_loop (loop_body update time_at) (i # idx) st = Inr st2"
    by (simp add: body rest)
  have carry: "carry_of st2 = (update_step update ^^ (10 * length (i # idx))) (carry_of st)"
  proof -
    have "10 * length (i # idx) = 10 * length idx + 10"
      by simp
    then show ?thesis
      by (simp only: carry2 carry1 funpow_add o_apply)
  qed
  have csv: "csv st2 = (csv st)\<lparr>rows := rows (csv st) @ (row # rs)\<rparr>"
    by (simp add: csv2 csv1)
  have len: "length (row # rs) = length (i # idx)"
    by (simp add: len2)
  have dom: "\<forall>row \<in> set (row # rs).
           dom row = {''loop'', ''iteration'', ''qd_score'', ''max_fitness'', ''coverage'', ''time''}"
    using dom1 dom2 by simp
  have loop: "map (\<lambda>row. row ''loop'') (row # rs) = map (\<lambda>i. Some (PyInt (1 + i))) (i # idx)"
    by (simp add: loop1 loop2)
  have iter: "map (\<lambda>row. row ''iteration'') (row # rs)
                = map (\<lambda>i. Some (PyInt (1 + i * log_period))) (i # idx)"
    by (simp add: iter1 iter2)
  have cov: "collected st2 ''coverage''
           = collected st ''coverage''
               @ map coverage (metrics_of_steps update (carry_of st) (10 * length (i # idx)))"
    by (simp only: steps cov2 cov1 map_append append_assoc)
  have fit: "collected st2 ''max_fitness''
           = collected st ''max_fitness''
               @ map max_fitness (metrics_of_steps update (carry_of st) (10 * length (i # idx)))"
    by (simp only: steps fit2 fit1 map_append append_assoc)
  have qd: "collected st2 ''qd_score''
           = collected st ''qd_score''
               @ map qd_score (metrics_of_steps update (carry_of st) (10 * length (i # idx)))"
    by (simp only: steps qd2 qd1 map_append append_assoc)
  show ?case
    by (rule Cons.prems [OF run carry csv len dom loop iter cov fit qd])
qed

lemma length_py_range: "length (py_range m) = nat m"
  by (simp add: py_range_def)

lemma main_loop_for_loop:
  assumes "num_loops n = Inr m"
  shows "main_loop update time_at n (r, e, k) =
     for_loop (loop_body update time_at) (py_range m)
       \<lparr>repertoire = r, emitter_state = e, random_key = k, all_metrics = Map.empty,
        csv = CSVLogger ''dcrlme-logs.csv''
                [''loop'', ''iteration'', ''qd_score'', ''max_fitness'', ''coverage'', ''time''],
        clock_reads = 0\<rparr>"
  by (simp add: main_loop_def assms)

lemma main_loop_raises:
  assumes "num_loops n = Inl err"
  shows "main_loop update time_at n carry = Inl err"
  by (simp add: main_loop_def assms)

text \<open>
  The sample runs: thirty iterations are three logging intervals; with \<open>-15\<close> iterations
  \<^verbatim>\<open>num_loops\<close> is \<open>-1\<close> and the body of the loop never runs.
\<close>

lemma py_range_3: "py_range 3 = [0, 1, 2]"
  by (simp add: py_range_def upt_rec)

lemma py_range_negative: "py_range (- 1) = []"
  by (simp add: py_range_def)

lemma sample_update_steps:
  "(update_step sample_update ^^ j) (r, (), ()) = (r + j, (), ())"
  by (induction j) (simp_all add: update_step_def sample_update_def)

lemma sample_main_loop_negative:
  "main_loop sample_update sample_time (- 15) (0, (), ())
     = Inr \<lparr>repertoire = 0, emitter_state = (), random_key = (), all_metrics = Map.empty,
            csv = CSVLogger ''dcrlme-logs.csv''
                    [''loop'', ''iteration'', ''qd_score'', ''max_fitness'', ''coverage'',
                     ''time''],
            clock_reads = 0\<rparr>"
  by (simp add: main_loop_for_loop [OF num_loops_minus_15] py_range_negative)

text \<open>
  Claim C1, as stated, fails for a negative number of iterations: with
  \<^verbatim>\<open>num_iterations = -15\<close> the file holds no row, while \<^verbatim>\<open>num_loops\<close> is \<open>-1\<close>.
\<close>

theorem csv_rows_negative_iterations_counterexample:
  "num_loops (- 15) = Inr (- 1)
   \<and> (case main_loop sample_update sample_time (- 15) (0, (), ()) of
        Inl err \<Rightarrow> None
      | Inr st \<Rightarrow> Some (length (rows (csv st)))) = Some 0"
  by (simp add: num_loops_minus_15 sample_main_loop_negative CSVLogger_def)

text \<open>
  Claim C1, amended.  Whenever the division computes \<^verbatim>\<open>num_loops\<close>, the main loop
  returns, the logger was constructed with the header \<^verbatim>\<open>["loop", "iteration",
  "qd_score", "max_fitness", "coverage", "time"]\<close>, and the file holds one row per logging
  interval in the order of the loop (row \<open>i\<close> carries \<open>loop = 1 + i\<close> and
  \<open>iteration = 1 + i * log_period\<close>), each supplying exactly the six columns of the
  header: exactly \<^verbatim>\<open>num_loops = int(num_iterations / log_period)\<close> rows when
  \<^verbatim>\<open>num_loops\<close> is not negative, and none otherwise.  When the division raises, the cell
  raises with it.  Below \<open>10 * 2 ^ 50\<close> iterations in absolute value, \<^verbatim>\<open>num_loops\<close> is
  the integer quotient truncated towards zero.
\<close>

theorem csv_rows_after_main_loop:
  "(\<forall>m. num_loops n = Inr m \<longrightarrow>
      (\<exists>st. main_loop update time_at n carry = Inr st
         \<and> filename (csv st) = ''dcrlme-logs.csv''
         \<and> header (csv st)
             = [''loop'', ''iteration'', ''qd_score'', ''max_fitness'', ''coverage'', ''time'']
         \<and> length (rows (csv st)) = nat m
         \<and> (0 \<le> m \<longrightarrow> int (length (rows (csv st))) = m)
         \<and> (\<forall>row \<in> set (rows (csv st)). dom row = set (header (csv st)))
         \<and> map (\<lambda>row. row ''loop'') (rows (csv st))
             = map (\<lambda>i. Some (PyInt (1 + i))) (py_range m)
         \<and> map (\<lambda>row. row ''iteration'') (rows (csv st))
             = map (\<lambda>i. Some (PyInt (1 + i * log_period))) (py_range m)))
   \<and> (\<forall>err. num_loops n = Inl err \<longrightarrow> main_loop update time_at n carry = Inl err)
   \<and> (\<bar>n\<bar> < 10 * 2 ^ 50 \<longrightarrow> num_loops n = Inr (sgn n * (\<bar>n\<bar> div log_period)))"
proof (intro conjI allI impI)
  fix m
  assume nl: "num_loops n = Inr m"
  obtain r e k where carry: "carry = (r, e, k)"
    by (cases carry)
  define st0 :: "('a, 'b, 'c) training" where "st0 =
    \<lparr>repertoire = r, emitter_state = e, random_key = k, all_metrics = Map.empty,
     csv = CSVLogger ''dcrlme-logs.csv''
             [''loop'', ''iteration'', ''qd_score'', ''max_fitness'', ''coverage'', ''time''],
     clock_reads = 0\<rparr>"
  obtain st rs where run: "for_loop (loop_body update time_at) (py_range m) st0 = Inr st"
    and "carry_of st = (update_step update ^^ (10 * length (py_range m))) (carry_of st0)"
    and csv: "csv st = (csv st0)\<lparr>rows := rows (csv st0) @ rs\<rparr>"
    and len: "length rs = length (py_range m)"
    and dom: "\<forall>row \<in> set rs.
           dom row = {''loop'', ''iteration'', ''qd_score'', ''max_fitness'', ''coverage'', ''time''}"
    and loop: "map (\<lambda>row. row ''loop'') rs = map (\<lambda>i. Some (PyInt (1 + i))) (py_range m)"
    and iter: "map (\<lambda>row. row ''iteration'') rs
                  = map (\<lambda>i. Some (PyInt (1 + i * log_period))) (py_range m)"
    by (rule for_loop_main [of update time_at "py_range m" st0])
  have main: "main_loop update time_at n carry = Inr st"
    using run by (simp only: carry main_loop_for_loop [OF nl] st0_def)
  have rows: "rows (csv st) = rs"
    and hdr: "header (csv st)
         = [''loop'', ''iteration'', ''qd_score'', ''max_fitness'', ''coverage'', ''time'']"
    and name: "filename (csv st) = ''dcrlme-logs.csv''"
    by (simp_all add: csv st0_def CSVLogger_def)
  have count: "length (rows (csv st)) = nat m"
    by (simp add: rows len length_py_range)
  then have count_int: "0 \<le> m \<longrightarrow> int (length (rows (csv st))) = m"
    by simp
  from dom have cols: "\<forall>row \<in> set (rows (csv st)). dom row = set (header (csv st))"
    by (simp add: rows hdr)
  have loop': "map (\<lambda>row. row ''loop'') (rows (csv st))
         = map (\<lambda>i. Some (PyInt (1 + i))) (py_range m)"
    by (simp only: rows loop)
  have iter': "map (\<lambda>row. row ''iteration'') (rows (csv st))
         = map (\<lambda>i. Some (PyInt (1 + i * log_period))) (py_range m)"
    by (simp only: rows iter)
  show "\<exists>st. main_loop update time_at n carry = Inr st
         \<and> filename (csv st) = ''dcrlme-logs.csv''
         \<and> header (csv st)
             = [''loop'', ''iteration'', ''qd_score'', ''max_fitness'', ''coverage'', ''time'']
         \<and> length (rows (csv st)) = nat m
         \<and> (0 \<le> m \<longrightarrow> int (length (rows (csv st))) = m)
         \<and> (\<forall>row \<in> set (rows (csv st)). dom row = set (header (csv st)))
         \<and> map (\<lambda>row. row ''loop'') (rows (csv st))
             = map (\<lambda>i. Some (PyInt (1 + i))) (py_range m)
         \<and> map (\<lambda>row. row ''iteration'') (rows (csv st))
             = map (\<lambda>i. Some (PyInt (1 + i * log_period))) (py_range m)"
    by (intro exI [of _ st] conjI main name hdr count count_int cols loop' iter')
next
  fix err
  assume "num_loops n = Inl err"
  then show "main_loop update time_at n carry = Inl err"
    by (rule main_loop_raises)
next
  assume "\<bar>n\<bar> < 10 * 2 ^ 50"
  then show "num_loops n = Inr (sgn n * (\<bar>n\<bar> div log_period))"
    by (simp add: num_loops_small log_period_def)
qed

theorem csv_rows_after_main_loop_witness:
  "num_loops 30 = Inr 3
   \<and> (\<exists>st. main_loop sample_update sample_time 30 (0, (), ()) = Inr st
     \<and> header (csv st)
         = [''loop'', ''iteration'', ''qd_score'', ''max_fitness'', ''coverage'', ''time'']
     \<and> length (rows (csv st)) = 3
     \<and> map (\<lambda>row. row ''loop'') (rows (csv st)) = [Some (PyInt 1), Some (PyInt 2), Some (PyInt 3)]
     \<and> map (\<lambda>row. row ''iteration'') (rows (csv st))
         = [Some (PyInt 1), Some (PyInt 11), Some (PyInt 21)])"
proof -
  note main = csv_rows_after_main_loop [of 30 sample_update sample_time "(0, (), ())"]
  from main have nl: "num_loops 30 = Inr 3"
    by (simp add: log_period_def)
  from main nl have "\<exists>st. main_loop sample_update sample_time 30 (0, (), ()) = Inr st
         \<and> filename (csv st) = ''dcrlme-logs.csv''
         \<and> header (csv st)
             = [''loop'', ''iteration'', ''qd_score'', ''max_fitness'', ''coverage'', ''time'']
         \<and> length (rows (csv st)) = nat 3
         \<and> (0 \<le> (3::int) \<longrightarrow> int (length (rows (csv st))) = 3)
         \<and> (\<forall>row \<in> set (rows (csv st)). dom row = set (header (csv st)))
         \<and> map (\<lambda>row. row ''loop'') (rows (csv st))
             = map (\<lambda>i. Some (PyInt (1 + i))) (py_range 3)
         \<and> map (\<lambda>row. row ''iteration'') (rows (csv st))
             = map (\<lambda>i. Some (PyInt (1 + i * log_period))) (py_range 3)"
    by blast
  then obtain st where "main_loop sample_update sample_time 30 (0, (), ()) = Inr st"
    and "header (csv st)
             = [''loop'', ''iteration'', ''qd_score'', ''max_fitness'', ''coverage'', ''time'']"
    and "length (rows (csv st)) = nat 3"
    and "map (\<lambda>row. row ''loop'') (rows (csv st))
             = map (\<lambda>i. Some (PyInt (1 + i))) (py_range 3)"
    and "map (\<lambda>row. row ''iteration'') (rows (csv st))
             = map (\<lambda>i. Some (PyInt (1 + i * log_period))) (py_range 3)"
    by (elim exE conjE)
  then have "\<exists>st. main_loop sample_update sample_time 30 (0, (), ()) = Inr st
     \<and> header (csv st)
         = [''loop'', ''iteration'', ''qd_score'', ''max_fitness'', ''coverage'', ''time'']
     \<and> length (rows (csv st)) = 3
     \<and> map (\<lambda>row. row ''loop'') (rows (csv st)) = [Some (PyInt 1), Some (PyInt 2), Some (PyInt 3)]
     \<and> map (\<lambda>row. row ''iteration'') (rows (csv st))
         = [Some (PyInt 1), Some (PyInt 11), Some (PyInt 21)]"
    by (intro exI [of _ st]) (simp add: py_range_3 log_period_def)
  with nl show ?thesis
    by (rule conjI)
qed

text \<open>
  Claim C5, as stated, fails for a negative number of iterations: with
  \<^verbatim>\<open>num_iterations = -15\<close> no update step is executed (the sample update counts its
  calls in the repertoire), while \<^verbatim>\<open>num_loops * log_period\<close> is \<open>-10\<close>.
\<close>

theorem update_steps_negative_iterations_counterexample:
  "(case num_loops (- 15) of Inl err \<Rightarrow> None | Inr m \<Rightarrow> Some (m * log_period)) = Some (- 10)
   \<and> (case main_loop sample_update sample_time (- 15) (0, (), ()) of
        Inl err \<Rightarrow> None
      | Inr st \<Rightarrow> Some (repertoire st)) = Some 0"
  by (simp add: num_loops_minus_15 sample_main_loop_negative log_period_def)

text \<open>
  Claim C5, amended.  Every logging interval runs one scan of length \<^verbatim>\<open>log_period\<close> over
  \<^verbatim>\<open>update_scan_fn\<close>, which applies the MAP-Elites update \<^verbatim>\<open>log_period\<close> times, each
  time to the repertoire, emitter state and random key the step before returned, and
  stacks the metrics of the steps.  Whenever the division computes \<^verbatim>\<open>num_loops\<close>, the
  main loop returns, its final carry is the initial one after \<open>nat num_loops * log_period\<close>
  update steps, and \<^verbatim>\<open>all_metrics\<close> holds the metrics of exactly these steps; the number
  of update steps is \<^verbatim>\<open>num_loops * log_period\<close> when \<^verbatim>\<open>num_loops\<close> is not negative, and
  zero otherwise.
\<close>

theorem main_loop_update_steps:
  "(\<forall>m. num_loops n = Inr m \<longrightarrow>
      (\<exists>st. main_loop update time_at n carry = Inr st
         \<and> carry_of st = (update_step update ^^ (nat m * nat log_period)) carry
         \<and> collected st ''coverage''
             = map coverage (metrics_of_steps update carry (nat m * nat log_period))
         \<and> collected st ''max_fitness''
             = map max_fitness (metrics_of_steps update carry (nat m * nat log_period))
         \<and> collected st ''qd_score''
             = map qd_score (metrics_of_steps update carry (nat m * nat log_period))
         \<and> (0 \<le> m \<longrightarrow> int (nat m * nat log_period) = m * log_period)))
   \<and> (\<forall>c. lax_scan (update_scan_fn update) c (nat log_period)
             = ((update_step update ^^ nat log_period) c,
                metrics_of_steps update c (nat log_period)))
   \<and> (\<forall>i st0 st1. loop_body update time_at i st0 = Inr st1 \<longrightarrow>
         carry_of st1 = fst (lax_scan (update_scan_fn update) (carry_of st0) (nat log_period)))"
proof (intro conjI allI impI)
  fix m
  assume nl: "num_loops n = Inr m"
  obtain r e k where carry: "carry = (r, e, k)"
    by (cases carry)
  define st0 :: "('a, 'b, 'c) training" where "st0 =
    \<lparr>repertoire = r, emitter_state = e, random_key = k, all_metrics = Map.empty,
     csv = CSVLogger ''dcrlme-logs.csv''
             [''loop'', ''iteration'', ''qd_score'', ''max_fitness'', ''coverage'', ''time''],
     clock_reads = 0\<rparr>"
  obtain st rs where run: "for_loop (loop_body update time_at) (py_range m) st0 = Inr st"
    and steps: "carry_of st = (update_step update ^^ (10 * length (py_range m))) (carry_of st0)"
    and "csv st = (csv st0)\<lparr>rows := rows (csv st0) @ rs\<rparr>"
    and "length rs = length (py_range m)"
    and "\<forall>row \<in> set rs.
           dom row = {''loop'', ''iteration'', ''qd_score'', ''max_fitness'', ''coverage'', ''time''}"
    and "map (\<lambda>row. row ''loop'') rs = map (\<lambda>i. Some (PyInt (1 + i))) (py_range m)"
    and "map (\<lambda>row. row ''iteration'') rs
                  = map (\<lambda>i. Some (PyInt (1 + i * log_period))) (py_range m)"
    and cov: "collected st ''coverage''
           = collected st0 ''coverage''
               @ map coverage (metrics_of_steps update (carry_of st0) (10 * length (py_range m)))"
    and fit: "collected st ''max_fitness''
           = collected st0 ''max_fitness''
               @ map max_fitness
                   (metrics_of_steps update (carry_of st0) (10 * length (py_range m)))"
    and qd: "collected st ''qd_score''
           = collected st0 ''qd_score''
               @ map qd_score (metrics_of_steps update (carry_of st0) (10 * length (py_range m)))"
    by (rule for_loop_main [of update time_at "py_range m" st0])
  have main: "main_loop update time_at n carry = Inr st"
    using run by (simp only: carry main_loop_for_loop [OF nl] st0_def)
  have total: "10 * length (py_range m) = nat m * nat log_period"
    by (simp add: length_py_range nat_log_period)
  have empty: "collected st0 key = []" for key
    by (simp add: collected_def st0_def)
  have c0: "carry_of st0 = carry"
    by (simp add: carry_of_def st0_def carry)
  have a: "carry_of st = (update_step update ^^ (nat m * nat log_period)) carry"
    using steps by (simp only: total c0)
  have b1: "collected st ''coverage''
             = map coverage (metrics_of_steps update carry (nat m * nat log_period))"
    using cov by (simp only: total c0 empty append_Nil)
  have b2: "collected st ''max_fitness''
             = map max_fitness (metrics_of_steps update carry (nat m * nat log_period))"
    using fit by (simp only: total c0 empty append_Nil)
  have b3: "collected st ''qd_score''
             = map qd_score (metrics_of_steps update carry (nat m * nat log_period))"
    using qd by (simp only: total c0 empty append_Nil)
  have cnt: "0 \<le> m \<longrightarrow> int (nat m * nat log_period) = m * log_period"
    by (simp add: log_period_def)
  show "\<exists>st. main_loop update time_at n carry = Inr st
         \<and> carry_of st = (update_step update ^^ (nat m * nat log_period)) carry
         \<and> collected st ''coverage''
             = map coverage (metrics_of_steps update carry (nat m * nat log_period))
         \<and> collected st ''max_fitness''
             = map max_fitness (metrics_of_steps update carry (nat m * nat log_period))
         \<and> collected st ''qd_score''
             = map qd_score (metrics_of_steps update carry (nat m * nat log_period))
         \<and> (0 \<le> m \<longrightarrow> int (nat m * nat log_period) = m * log_period)"
    by (intro exI [of _ st] conjI main a b1 b2 b3 cnt)
next
  fix c :: "'a \<times> 'b \<times> 'c"
  show "lax_scan (update_scan_fn update) c (nat log_period)
             = ((update_step update ^^ nat log_period) c,
                metrics_of_steps update c (nat log_period))"
    by (rule lax_scan_update)
next
  fix i and s0 s1 :: "('a, 'b, 'c) training"
  assume body: "loop_body update time_at i s0 = Inr s1"
  obtain s1' row where "loop_body update time_at i s0 = Inr s1'"
    and "carry_of s1' = (update_step update ^^ 10) (carry_of s0)"
    by (rule loop_body_step [of update time_at i s0])
  with body have "carry_of s1 = (update_step update ^^ 10) (carry_of s0)"
    by simp
  then show "carry_of s1
      = fst (lax_scan (update_scan_fn update) (carry_of s0) (nat log_period))"
    by (simp only: lax_scan_update nat_log_period fst_conv)
qed

theorem main_loop_update_steps_witness:
  "\<exists>st. main_loop sample_update sample_time 30 (0, (), ()) = Inr st
     \<and> repertoire st = 30
     \<and> collected st ''qd_score'' = map (\<lambda>j. Num (real j)) [0..<30]"
proof -
  note main = main_loop_update_steps [of 30 sample_update sample_time "(0, (), ())"]
  from main num_loops_30
  have "\<exists>st. main_loop sample_update sample_time 30 (0, (), ()) = Inr st
         \<and> carry_of st = (update_step sample_update ^^ (nat 3 * nat log_period)) (0, (), ())
         \<and> collected st ''coverage''
             = map coverage (metrics_of_steps sample_update (0, (), ()) (nat 3 * nat log_period))
         \<and> collected st ''max_fitness''
             = map max_fitness
                 (metrics_of_steps sample_update (0, (), ()) (nat 3 * nat log_period))
         \<and> collected st ''qd_score''
             = map qd_score (metrics_of_steps sample_update (0, (), ()) (nat 3 * nat log_period))
         \<and> (0 \<le> (3::int) \<longrightarrow> int (nat 3 * nat log_period) = 3 * log_period)"
    by blast
  then obtain st where "main_loop sample_update sample_time 30 (0, (), ()) = Inr st"
    and "carry_of st = (update_step sample_update ^^ (nat 3 * nat log_period)) (0, (), ())"
    and "collected st ''qd_score''
             = map qd_score (metrics_of_steps sample_update (0, (), ()) (nat 3 * nat log_period))"
    by (elim exE conjE)
  then show ?thesis
    by (intro exI [of _ st])
       (simp add: log_period_def sample_update_steps carry_of_def metrics_of_steps_def
          update_metrics_def sample_update_def)
qed

subsection \<open>The installation cell\<close>

lemma import_module_qdax:
  "import_module ''qdax'' s =
     (if ''qdax'' \<in> installed s then Inr (s\<lparr>modules := insert ''qdax'' (modules s)\<rparr>)
      else Inl (ModuleNotFoundError ''qdax''))"
  by (simp add: import_module_def)

text \<open>
  Claim C4.  The first cell installs QDax exactly when the first \<^verbatim>\<open>import qdax\<close> raises:
  the shell commands it runs are the one \<^verbatim>\<open>pip install qdax[cuda12]\<close> in that case and
  none otherwise; when the import succeeds the cell ends normally with nothing installed;
  when it raises, the import is tried again after the installation, and an exception of
  that second import leaves the cell.
\<close>

theorem install_exactly_when_import_raises:
  "shell_commands (fst (bootstrap_cell pip s))
     = shell_commands s
       @ (case import_module ''qdax'' s of
            Inl e \<Rightarrow> [''pip install qdax[cuda12]'']
          | Inr s1 \<Rightarrow> [])
   \<and> (case import_module ''qdax'' s of
        Inr s1 \<Rightarrow>
          bootstrap_cell pip s = (clear_output s1, None)
          \<and> installed (fst (bootstrap_cell pip s)) = installed s
      | Inl e \<Rightarrow>
          snd (bootstrap_cell pip s)
            = (case import_module ''qdax''
                      (run_shell pip ''pip install qdax[cuda12]''
                         (print_line ''QDax not found. Installing...'' s)) of
                 Inl e2 \<Rightarrow> Some e2
               | Inr s3 \<Rightarrow> None))
   \<and> (snd (bootstrap_cell pip s) = None \<longrightarrow> ''qdax'' \<in> modules (fst (bootstrap_cell pip s)))"
  by (simp add: bootstrap_cell_def import_or_install_def import_module_qdax run_shell_def
      print_line_def clear_output_def Let_def)

theorem install_exactly_when_import_raises_witness:
  "bootstrap_cell sample_pip sample_session
     = (\<lparr>installed = {''qdax''}, modules = {''qdax''},
         shell_commands = [''pip install qdax[cuda12]''], displayed = []\<rparr>, None)
   \<and> bootstrap_cell sample_pip (sample_session\<lparr>installed := {''qdax''}\<rparr>)
     = (\<lparr>installed = {''qdax''}, modules = {''qdax''},
         shell_commands = [], displayed = []\<rparr>, None)"
proof -
  have first: "bootstrap_cell sample_pip sample_session
     = (\<lparr>installed = {''qdax''}, modules = {''qdax''},
         shell_commands = [''pip install qdax[cuda12]''], displayed = []\<rparr>, None)"
    by (simp add: bootstrap_cell_def import_or_install_def import_module_qdax run_shell_def
        print_line_def clear_output_def Let_def sample_pip_def sample_session_def)
  from install_exactly_when_import_raises [of sample_pip "sample_session\<lparr>installed := {''qdax''}\<rparr>"]
  have "bootstrap_cell sample_pip (sample_session\<lparr>installed := {''qdax''}\<rparr>)
     = (\<lparr>installed = {''qdax''}, modules = {''qdax''},
         shell_commands = [], displayed = []\<rparr>, None)"
    by (simp add: import_module_qdax clear_output_def sample_session_def)
  with first show ?thesis
    by simp
qed

end
